theory Spec2Isabelle
  imports
    Main
    "HOL-Library.Multiset"
    "HOL-Library.Char_ord"
    "HOL-Library.List_Lexorder"
begin

section \<open>Python primitives used by \<^verbatim>\<open>utils.py\<close>\<close>

text \<open>
  The DAQ configuration compiler of \<^verbatim>\<open>src/utils.py\<close> works on dictionaries whose
  values are hexadecimal strings. This section models the string primitives it relies
  on: \<^verbatim>\<open>format(n, "0wX")\<close>, \<^verbatim>\<open>int(s, 16)\<close>, \<^verbatim>\<open>n.to_bytes(k, order).hex().upper()\<close>,
  \<^verbatim>\<open>str.upper\<close>, \<^verbatim>\<open>str.replace\<close> and \<^verbatim>\<open>str.ljust\<close>. Every exception and every
  \<^verbatim>\<open>sys.exit\<close> of the source is a value of type \<open>error\<close>.
\<close>

datatype error =
    NoMatchedSignals
  | OdtCapacityExceeded string nat nat
  | FrameLimitExceeded nat int
  | DataBytesExceeded nat int
  | ValueError
  | OverflowError
  | KeyError
  | StopIteration
  | UnboundLocalError

datatype byte_order = big | little

datatype protocol = ccp | xcp

text \<open>Sequencing of fallible steps: the first error aborts the computation.\<close>

definition bindE :: "error + 'a \<Rightarrow> ('a \<Rightarrow> error + 'b) \<Rightarrow> error + 'b" where
  "bindE m f = (case m of Inl e \<Rightarrow> Inl e | Inr v \<Rightarrow> f v)"

definition hex_digit :: "nat \<Rightarrow> char" where
  "hex_digit d = ''0123456789ABCDEF'' ! d"

text \<open>\<^verbatim>\<open>format(n, "X")\<close>: the upper-case hexadecimal digits of \<open>n\<close>, most significant first.\<close>

fun to_hex :: "nat \<Rightarrow> string" where
  "to_hex n = (if n < 16 then [hex_digit n] else to_hex (n div 16) @ [hex_digit (n mod 16)])"

declare to_hex.simps [simp del]

text \<open>\<^verbatim>\<open>format(n, "0wX")\<close>: zero-padded on the left to at least \<open>w\<close> characters.\<close>

definition format_X :: "nat \<Rightarrow> nat \<Rightarrow> string" where
  "format_X w n = replicate (w - length (to_hex n)) (CHR ''0'') @ to_hex n"

definition hex_val :: "char \<Rightarrow> nat option" where
  "hex_val c =
     (let n = (of_char c :: nat) in
      if 48 \<le> n \<and> n \<le> 57 then Some (n - 48)
      else if 65 \<le> n \<and> n \<le> 70 then Some (n - 55)
      else if 97 \<le> n \<and> n \<le> 102 then Some (n - 87)
      else None)"

fun parse_digits :: "nat \<Rightarrow> string \<Rightarrow> nat option" where
  "parse_digits acc [] = Some acc"
| "parse_digits acc (c # cs) =
     (case hex_val c of None \<Rightarrow> None | Some d \<Rightarrow> parse_digits (16 * acc + d) cs)"

text \<open>
  \<^verbatim>\<open>int(s, 16)\<close> on the strings this program handles: an optional \<^verbatim>\<open>0x\<close>/\<^verbatim>\<open>0X\<close>
  prefix followed by at least one hexadecimal digit of either case. \<open>None\<close> stands for
  Python's \<^verbatim>\<open>ValueError\<close>. Signs, surrounding white space and digit-group underscores,
  which Python also accepts, do not occur in the generated identifiers and are reported
  as \<open>None\<close> by this model.
\<close>

definition py_int16 :: "string \<Rightarrow> nat option" where
  "py_int16 s =
     (let ds = (if take 2 s = ''0x'' \<or> take 2 s = ''0X'' then drop 2 s else s)
      in if ds = [] then None else parse_digits 0 ds)"

definition int16 :: "string \<Rightarrow> error + nat" where
  "int16 s = (case py_int16 s of None \<Rightarrow> Inl ValueError | Some n \<Rightarrow> Inr n)"

text \<open>The \<open>k\<close> low bytes of \<open>n\<close>, most significant first.\<close>

fun be_bytes :: "nat \<Rightarrow> nat \<Rightarrow> nat list" where
  "be_bytes 0 n = []"
| "be_bytes (Suc k) n = be_bytes k (n div 256) @ [n mod 256]"

text \<open>
  \<^verbatim>\<open>n.to_bytes(k, order).hex().upper()\<close> for a non-negative \<open>n\<close>: Python raises
  \<^verbatim>\<open>OverflowError\<close> when \<open>n\<close> does not fit into \<open>k\<close> bytes.
\<close>

definition to_bytes_hex :: "nat \<Rightarrow> byte_order \<Rightarrow> nat \<Rightarrow> error + string" where
  "to_bytes_hex k order n =
     (if 256 ^ k \<le> n then Inl OverflowError
      else Inr (concat (map (format_X 2)
                  (case order of big \<Rightarrow> be_bytes k n | little \<Rightarrow> rev (be_bytes k n)))))"

text \<open>\<^verbatim>\<open>ctr_hex\<close> (utils.py, line 5): the CCP command counter as one byte.\<close>

definition ctr_hex :: "nat \<Rightarrow> error + string" where
  "ctr_hex counter = to_bytes_hex 1 big counter"

definition upper_char :: "char \<Rightarrow> char" where
  "upper_char c =
     (let n = (of_char c :: nat) in if 97 \<le> n \<and> n \<le> 122 then char_of (n - 32) else c)"

text \<open>\<^verbatim>\<open>str.upper\<close> on ASCII text.\<close>

definition upper :: "string \<Rightarrow> string" where
  "upper s = map upper_char s"

text \<open>\<^verbatim>\<open>s.replace(p, "")\<close> for a two-character pattern \<open>[a, b]\<close>, scanning left to right.\<close>

fun remove2 :: "char \<Rightarrow> char \<Rightarrow> string \<Rightarrow> string" where
  "remove2 a b (c # d # rest) =
     (if c = a \<and> d = b then remove2 a b rest else c # remove2 a b (d # rest))"
| "remove2 a b s = s"

text \<open>\<^verbatim>\<open>s.ljust(w, "0")[:w]\<close>.\<close>

definition ljust0 :: "nat \<Rightarrow> string \<Rightarrow> string" where
  "ljust0 w s = take w (s @ replicate (w - length s) (CHR ''0''))"

section \<open>Data model\<close>

text \<open>
  A signal is the dictionary built by \<^verbatim>\<open>load_a2l_signals\<close> and
  \<^verbatim>\<open>filter_a2l_signals\<close>: \<open>EventConfigured\<close> is the event channel text of the user's
  signal file, \<open>Length\<close> the byte length taken from \<^verbatim>\<open>data_type_map\<close>. The input list of
  \<^verbatim>\<open>group_signals\<close> holds one fresh dictionary per signal name, so the in-place
  assignment of the three DAQ keys is modelled by extending the record.
\<close>

record signal =
  Name :: string
  EventConfigured :: string
  ECU_ADDRESS :: string
  Length :: nat
  Signage :: string
  LowerLimit :: string
  UpperLimit :: string
  Scale :: string
  Offset :: string
  Unit :: string

record grouped_signal = signal +
  DAQ_LIST_NUMBER :: string
  ODT_NUMBER :: string
  ODT_ENTRY_NUMBER :: string

text \<open>One entry of \<^verbatim>\<open>a2l_params["DAQ_LISTS"]\<close> (keys \<^verbatim>\<open>Id\<close>, \<^verbatim>\<open>Length\<close>, \<^verbatim>\<open>FirstPID\<close>).\<close>

record daq_list_entry =
  dl_Id :: string
  dl_Length :: string
  dl_FirstPID :: string

record event =
  EventChannelNumber :: nat
  EventPriority :: string

text \<open>
  The protocol parameters. \<open>DAQ_LISTS\<close> is \<open>None\<close> when the key is absent, which
  \<^verbatim>\<open>group_signals\<close> tests for.
\<close>

record a2l_params =
  MAX_CTO :: string
  MAX_DTO :: string
  BYTE_ORDER :: byte_order
  BYTES_ONLY :: bool
  DAQ_LISTS :: "daq_list_entry list option"
  EVENTS :: "event list"
  CAN_ID_MASTER :: string
  CAN_ID_MASTER_EXTENDED :: bool
  CAN_ID_SLAVE :: string
  CAN_ID_SLAVE_EXTENDED :: bool
  CAN_ID_DTO :: string
  ECU_STATION_ADDRESS :: string
  BAUDRATE :: int
  CAN_FD_DATA_TRANSFER_BAUDRATE :: "int option"

record frame =
  frame_name :: string
  DATA :: string

section \<open>Validation in \<^verbatim>\<open>filter_a2l_signals\<close>\<close>

text \<open>
  The validation checks of \<^verbatim>\<open>filter_a2l_signals\<close> (lines 564 to 569), which decide whether a
  matched signal is passed on to \<^verbatim>\<open>group_signals\<close>; \<open>max_dto\<close> is the value of line 510,
  \<^verbatim>\<open>min(int(a2l_params["MAX_DTO"], 16), 64)\<close>. The matching of the signal names against the
  user's list is not part of this development.
\<close>

definition filter_keeps :: "nat \<Rightarrow> signal \<Rightarrow> bool" where
  "filter_keeps max_dto new_signal =
     (if Length new_signal = 0 then False
      else if Length new_signal = 8 \<and> max_dto = 8 then False
      else True)"

section \<open>Grouping: \<^verbatim>\<open>group_signals\<close>\<close>

text \<open>
  \<^verbatim>\<open>daq_lists[event_channel].append(signal)\<close> on a \<^verbatim>\<open>defaultdict(list)\<close>: the
  dictionary keeps its keys in insertion order, so it is an association list.
\<close>

fun dd_append :: "(string \<times> signal list) list \<Rightarrow> string \<Rightarrow> signal \<Rightarrow> (string \<times> signal list) list" where
  "dd_append [] k v = [(k, [v])]"
| "dd_append ((k', vs) # rest) k v =
     (if k' = k then (k', vs @ [v]) # rest else (k', vs) # dd_append rest k v)"

definition bucket_signals :: "signal list \<Rightarrow> (string \<times> signal list) list" where
  "bucket_signals signals = foldl (\<lambda>daq_lists s. dd_append daq_lists (EventConfigured s) s) [] signals"

text \<open>The identifier texts of lines 623 to 625: \<^verbatim>\<open>f"0x{n:04X}"\<close> and \<^verbatim>\<open>f"0x{n:02X}"\<close>.\<close>

definition hex_id :: "nat \<Rightarrow> nat \<Rightarrow> string" where
  "hex_id w n = ''0x'' @ format_X w n"

definition assign :: "signal \<Rightarrow> nat \<Rightarrow> nat \<Rightarrow> nat \<Rightarrow> grouped_signal" where
  "assign s daq_counter odt_counter odt_entry_number =
     signal.extend s
       (grouped_signal.fields
          (hex_id 4 daq_counter)
          (hex_id 2 odt_counter)
          (hex_id 2 odt_entry_number))"

text \<open>The inner loop (lines 611 to 629) over the signals of one event channel.\<close>

fun assign_odts :: "int \<Rightarrow> nat \<Rightarrow> nat \<Rightarrow> nat \<Rightarrow> grouped_signal list \<Rightarrow> signal list \<Rightarrow> grouped_signal list" where
  "assign_odts max_payload daq_counter odt_counter current_odt_size odt_entries [] = []"
| "assign_odts max_payload daq_counter odt_counter current_odt_size odt_entries (s # rest) =
     (let signal_length = Length s;
          new_odt = (int current_odt_size + int signal_length > max_payload);
          odt_counter' = (if new_odt then odt_counter + 1 else odt_counter);
          current_odt_size' = (if new_odt then 0 else current_odt_size);
          odt_entries' = (if new_odt then [] else odt_entries);
          odt_entry_number = length odt_entries';
          g = assign s daq_counter odt_counter' odt_entry_number
      in g # assign_odts max_payload daq_counter odt_counter'
               (current_odt_size' + signal_length) (odt_entries' @ [g]) rest)"

text \<open>The outer loop (lines 606 to 631) over the event channels.\<close>

fun assign_daqs :: "int \<Rightarrow> nat \<Rightarrow> (string \<times> signal list) list \<Rightarrow> grouped_signal list" where
  "assign_daqs max_payload daq_counter [] = []"
| "assign_daqs max_payload daq_counter ((event_channel, event_signals) # rest) =
     assign_odts max_payload daq_counter 0 0 [] event_signals
       @ assign_daqs max_payload (daq_counter + 1) rest"

text \<open>Lines 636 to 642: the set of ODT ids used by each DAQ list, in first-seen order.\<close>

fun odt_set_add :: "(string \<times> string set) list \<Rightarrow> string \<Rightarrow> string \<Rightarrow> (string \<times> string set) list" where
  "odt_set_add [] daq_id odt_id = [(daq_id, {odt_id})]"
| "odt_set_add ((k, odt_set) # rest) daq_id odt_id =
     (if k = daq_id then (k, insert odt_id odt_set) # rest
      else (k, odt_set) # odt_set_add rest daq_id odt_id)"

definition count_odts :: "grouped_signal list \<Rightarrow> (string \<times> string set) list" where
  "count_odts signals_grouped =
     foldl (\<lambda>daq_odt_counts s. odt_set_add daq_odt_counts (DAQ_LIST_NUMBER s) (ODT_NUMBER s))
       [] signals_grouped"

text \<open>
  Lines 645 to 658: the capacity check. The DAQ list entry is found by comparing the
  \<^verbatim>\<open>Id\<close> text with the generated \<^verbatim>\<open>DAQ_LIST_NUMBER\<close> text.
\<close>

fun check_capacity :: "daq_list_entry list \<Rightarrow> (string \<times> string set) list \<Rightarrow> error + unit" where
  "check_capacity dls [] = Inr ()"
| "check_capacity dls ((daq_id, odt_set) # rest) =
     (let odt_count = card odt_set in
      case find (\<lambda>dl. dl_Id dl = daq_id) dls of
        None \<Rightarrow> check_capacity dls rest
      | Some daq_list_entry \<Rightarrow>
          bindE (int16 (dl_Length daq_list_entry)) (\<lambda>max_odts.
            if odt_count > max_odts then Inl (OdtCapacityExceeded daq_id odt_count max_odts)
            else check_capacity dls rest))"

definition group_signals :: "signal list \<Rightarrow> a2l_params \<Rightarrow> protocol \<Rightarrow> error + grouped_signal list" where
  "group_signals signals params proto =
     (if length signals = 0 then Inl NoMatchedSignals
      else
        bindE (int16 (MAX_DTO params)) (\<lambda>dto.
          let max_dto = min dto 64;
              max_payload = int max_dto - 1;
              daq_lists = bucket_signals signals;
              signals_grouped = assign_daqs max_payload 0 daq_lists
          in case (proto, DAQ_LISTS params) of
               (ccp, Some dls) \<Rightarrow>
                 bindE (check_capacity dls (count_odts signals_grouped))
                   (\<lambda>_. Inr signals_grouped)
             | _ \<Rightarrow> Inr signals_grouped))"

section \<open>Command encoders\<close>

text \<open>
  A \<^verbatim>\<open>for\<close> loop that appends frames to \<^verbatim>\<open>daq_frames\<close> while it updates local
  variables (the CCP counter, the pending descriptors of a frame): the body maps the
  variables and the loop item to the new variables and the frames it appends.
\<close>

fun for_state :: "('s \<Rightarrow> 'a \<Rightarrow> error + ('s \<times> frame list)) \<Rightarrow> 's \<Rightarrow> 'a list \<Rightarrow> error + ('s \<times> frame list)" where
  "for_state body st [] = Inr (st, [])"
| "for_state body st (x # xs) =
     bindE (body st x) (\<lambda>(st', fs).
     bindE (for_state body st' xs) (\<lambda>(st'', fs').
       Inr (st'', fs @ fs')))"

text \<open>The same for a loop that only appends frames.\<close>

fun for_frames :: "('a \<Rightarrow> error + frame list) \<Rightarrow> 'a list \<Rightarrow> error + frame list" where
  "for_frames body [] = Inr []"
| "for_frames body (x # xs) =
     bindE (body x) (\<lambda>fs.
     bindE (for_frames body xs) (\<lambda>fs'.
       Inr (fs @ fs')))"

text \<open>\<^verbatim>\<open>sorted(set(s[key] for s in signals))\<close>: strings sort by code point, a prefix first.\<close>

definition sorted_ids :: "(grouped_signal \<Rightarrow> string) \<Rightarrow> grouped_signal list \<Rightarrow> string list" where
  "sorted_ids key signals = sorted_list_of_set (set (map key signals))"

text \<open>\<^verbatim>\<open>int(next(s for s in signals_grouped if ...)['EventConfigured'], 16)\<close>.\<close>

definition event_channel_of :: "grouped_signal list \<Rightarrow> string \<Rightarrow> error + nat" where
  "event_channel_of signals_grouped daq_list =
     (case find (\<lambda>s. DAQ_LIST_NUMBER s = daq_list) signals_grouped of
        None \<Rightarrow> Inl StopIteration
      | Some s \<Rightarrow> int16 (EventConfigured s))"

subsection \<open>CCP: \<^verbatim>\<open>create_daq_frames_ccp\<close>\<close>

definition address_extension :: string where "address_extension = ''00''"
definition prescaler :: string where "prescaler = ''01''"
definition start_stop_mode :: string where "start_stop_mode = ''02''"
definition bit_offset :: string where "bit_offset = ''FF''"
definition dummy_byte :: string where "dummy_byte = ''00''"

text \<open>Lines 719 to 730: one \<^verbatim>\<open>SET_DAQ_PTR\<close> and one \<^verbatim>\<open>WRITE_DAQ\<close> per signal.\<close>

definition ccp_entry :: "byte_order \<Rightarrow> string \<Rightarrow> string \<Rightarrow> nat \<Rightarrow> grouped_signal \<Rightarrow> error + (nat \<times> frame list)" where
  "ccp_entry byte_order daq_number odt_number ctr s =
     (let len = Length s in
      bindE (int16 (ODT_ENTRY_NUMBER s)) (\<lambda>e.
      bindE (to_bytes_hex 1 big e) (\<lambda>odt_entry.
      bindE (ctr_hex ctr) (\<lambda>c1.
      bindE (int16 (ECU_ADDRESS s)) (\<lambda>a.
      bindE (to_bytes_hex 4 byte_order a) (\<lambda>ecu_address.
      bindE (ctr_hex (ctr + 1)) (\<lambda>c2.
        Inr (ctr + 2,
          [\<lparr>frame_name = ''PTR_D'' @ daq_number @ ''_O'' @ odt_number @ ''_E'' @ odt_entry,
            DATA = ''15'' @ c1 @ daq_number @ odt_number @ odt_entry @ ''AAAAAA''\<rparr>,
           \<lparr>frame_name = ''WRITE_DAQ'',
            DATA = ''16'' @ c2 @ format_X 2 len @ address_extension @ ecu_address\<rparr>]))))))))"

text \<open>
  Lines 735 to 748: with \<^verbatim>\<open>BYTES_ONLY\<close>, one pair of frames per byte of the signal.
  The loop variables are the counter and \<^verbatim>\<open>odt_entry_manual\<close>.
\<close>

definition ccp_chunk :: "byte_order \<Rightarrow> string \<Rightarrow> string \<Rightarrow> grouped_signal \<Rightarrow> nat \<times> nat \<Rightarrow> nat \<Rightarrow> error + ((nat \<times> nat) \<times> frame list)" where
  "ccp_chunk byte_order daq_number odt_number s st signal_chunk_idx =
     (case st of (ctr, odt_entry_manual) \<Rightarrow>
      bindE (to_bytes_hex 1 big odt_entry_manual) (\<lambda>odt_entry.
      bindE (ctr_hex ctr) (\<lambda>c1.
      bindE (int16 (ECU_ADDRESS s)) (\<lambda>ecu_address_base.
      bindE (to_bytes_hex 4 byte_order (ecu_address_base + signal_chunk_idx)) (\<lambda>ecu_address_with_offset.
      bindE (ctr_hex (ctr + 1)) (\<lambda>c2.
        Inr ((ctr + 2, odt_entry_manual + 1),
          [\<lparr>frame_name = ''PTR_D'' @ daq_number @ ''_O'' @ odt_number @ ''_E'' @ odt_entry,
            DATA = ''15'' @ c1 @ daq_number @ odt_number @ odt_entry @ ''AAAAAA''\<rparr>,
           \<lparr>frame_name = ''WRITE_DAQ'',
            DATA = ''16'' @ c2 @ ''01'' @ address_extension @ ecu_address_with_offset\<rparr>])))))))"

definition ccp_entry_bytes :: "byte_order \<Rightarrow> string \<Rightarrow> string \<Rightarrow> nat \<times> nat \<Rightarrow> grouped_signal \<Rightarrow> error + ((nat \<times> nat) \<times> frame list)" where
  "ccp_entry_bytes byte_order daq_number odt_number st s =
     for_state (ccp_chunk byte_order daq_number odt_number s) st [0 ..< Length s]"

text \<open>Lines 713 to 748: the body of the loop over the ODTs of one DAQ list.\<close>

definition ccp_odt :: "byte_order \<Rightarrow> bool \<Rightarrow> string \<Rightarrow> grouped_signal list \<Rightarrow> nat \<Rightarrow> string \<Rightarrow> error + (nat \<times> frame list)" where
  "ccp_odt byte_order bytes_only daq_number daq_signals ctr odt =
     (let odt_signals = filter (\<lambda>s. ODT_NUMBER s = odt) daq_signals in
      bindE (int16 odt) (\<lambda>odt_int.
      bindE (to_bytes_hex 1 big odt_int) (\<lambda>odt_number.
        if \<not> bytes_only then
          for_state (ccp_entry byte_order daq_number odt_number) ctr odt_signals
        else
          bindE (for_state (ccp_entry_bytes byte_order daq_number odt_number) (ctr, 0) odt_signals)
            (\<lambda>(st, fs). Inr (fst st, fs)))))"

text \<open>Lines 704 to 748: \<^verbatim>\<open>GET_DAQ_SIZE\<close>, then the ODTs of the DAQ list.\<close>

definition ccp_daq_list :: "byte_order \<Rightarrow> bool \<Rightarrow> nat \<Rightarrow> grouped_signal list \<Rightarrow> nat \<Rightarrow> string \<Rightarrow> error + (nat \<times> frame list)" where
  "ccp_daq_list byte_order bytes_only can_id_dto signals_grouped ctr daq_list =
     (let daq_signals = filter (\<lambda>s. DAQ_LIST_NUMBER s = daq_list) signals_grouped;
          odts = sorted_ids ODT_NUMBER daq_signals in
      bindE (int16 daq_list) (\<lambda>d.
      bindE (to_bytes_hex 1 big d) (\<lambda>daq_number.
      bindE (ctr_hex ctr) (\<lambda>c.
      bindE (to_bytes_hex 4 big can_id_dto) (\<lambda>dto.
      bindE (for_state (ccp_odt byte_order bytes_only daq_number daq_signals) (ctr + 1) odts)
        (\<lambda>(ctr', fs).
          Inr (ctr',
            \<lparr>frame_name = ''GET_DAQ_SIZE_'' @ daq_number,
             DATA = ''14'' @ c @ daq_number @ ''AA'' @ dto\<rparr> # fs)))))))"

text \<open>
  Lines 762 to 764: the loop that leaves \<^verbatim>\<open>daq_number\<close> and \<^verbatim>\<open>odt_number\<close> at the
  values of the last ODT. The list \<^verbatim>\<open>odts\<close> of a DAQ list taken from
  \<^verbatim>\<open>signals_grouped\<close> is never empty; were it empty, nothing would be assigned here.
\<close>

fun last_odt_numbers :: "string \<Rightarrow> (string \<times> string) option \<Rightarrow> string list \<Rightarrow> error + (string \<times> string) option" where
  "last_odt_numbers daq_list numbers [] = Inr numbers"
| "last_odt_numbers daq_list numbers (odt # rest) =
     bindE (int16 daq_list) (\<lambda>d.
     bindE (to_bytes_hex 1 big d) (\<lambda>daq_number.
     bindE (int16 odt) (\<lambda>odt_int.
     bindE (to_bytes_hex 1 big odt_int) (\<lambda>odt_number.
       last_odt_numbers daq_list (Some (daq_number, odt_number)) rest))))"

text \<open>Lines 753 to 767: one \<^verbatim>\<open>START_STOP\<close> frame per DAQ list.\<close>

definition ccp_start_stop :: "byte_order \<Rightarrow> grouped_signal list \<Rightarrow> nat \<Rightarrow> string \<Rightarrow> error + (nat \<times> frame list)" where
  "ccp_start_stop byte_order signals_grouped ctr daq_list =
     (let daq_signals = filter (\<lambda>s. DAQ_LIST_NUMBER s = daq_list) signals_grouped;
          odts = sorted_ids ODT_NUMBER daq_signals in
      bindE (event_channel_of signals_grouped daq_list) (\<lambda>event_channel.
      bindE (to_bytes_hex 1 byte_order event_channel) (\<lambda>event_channel_hex.
      let event_scaler_hex = ''0001'' in
      bindE (last_odt_numbers daq_list None odts) (\<lambda>numbers.
        case numbers of
          None \<Rightarrow> Inl UnboundLocalError
        | Some (daq_number, odt_number) \<Rightarrow>
            bindE (ctr_hex ctr) (\<lambda>c.
              Inr (ctr + 1,
                [\<lparr>frame_name = ''START_STOP_D'' @ daq_number,
                  DATA = ''06'' @ c @ start_stop_mode @ daq_number @ odt_number
                           @ event_channel_hex @ event_scaler_hex\<rparr>]))))))"

unbundle bit_operations_syntax

definition create_daq_frames_ccp :: "grouped_signal list \<Rightarrow> a2l_params \<Rightarrow> error + frame list" where
  "create_daq_frames_ccp signals_grouped params =
     (let byte_order = BYTE_ORDER params in
      bindE (int16 (MAX_CTO params)) (\<lambda>cto.
      bindE (int16 (CAN_ID_DTO params)) (\<lambda>can_id_dto0.
      bindE (case DAQ_LISTS params of None \<Rightarrow> Inl KeyError | Some dls \<Rightarrow> Inr dls) (\<lambda>_.
      let bytes_only = BYTES_ONLY params;
          can_id_dto = (if CAN_ID_SLAVE_EXTENDED params then can_id_dto0 OR 0x80000000
                        else can_id_dto0);
          ctr = 1 in
      bindE (ctr_hex ctr) (\<lambda>c1.
      bindE (int16 (ECU_STATION_ADDRESS params)) (\<lambda>station.
      bindE (to_bytes_hex 2 little station) (\<lambda>station_hex.
      bindE (ctr_hex (ctr + 1)) (\<lambda>c2.
      let daq_lists = sorted_ids DAQ_LIST_NUMBER signals_grouped in
      bindE (for_state (ccp_daq_list byte_order bytes_only can_id_dto signals_grouped) (ctr + 2) daq_lists)
        (\<lambda>(ctr', write_frames).
      bindE (for_state (ccp_start_stop byte_order signals_grouped) ctr' daq_lists)
        (\<lambda>(ctr'', start_frames).
      bindE (ctr_hex ctr'') (\<lambda>c3.
        Inr ([\<lparr>frame_name = ''CONNECT'', DATA = ''01'' @ c1 @ station_hex @ ''AAAAAAAA''\<rparr>,
              \<lparr>frame_name = ''EXCHANGE_ID'', DATA = ''17'' @ c2 @ ''AAAAAAAAAAAA''\<rparr>]
             @ write_frames @ start_frames
             @ [\<lparr>frame_name = ''START_STOP_ALL'', DATA = ''08'' @ c3 @ ''01AAAAAAAAAA''\<rparr>]))))))))))))"

subsection \<open>XCP: \<^verbatim>\<open>create_daq_frames_xcp\<close>\<close>

text \<open>Lines 803 to 807: one \<^verbatim>\<open>ALLOC_ODT\<close> per DAQ list.\<close>

definition xcp_alloc_odt :: "byte_order \<Rightarrow> grouped_signal list \<Rightarrow> string \<Rightarrow> error + frame list" where
  "xcp_alloc_odt byte_order signals_grouped daq_list =
     (let odts = sorted_ids ODT_NUMBER (filter (\<lambda>s. DAQ_LIST_NUMBER s = daq_list) signals_grouped) in
      bindE (int16 daq_list) (\<lambda>d.
      bindE (to_bytes_hex 2 byte_order d) (\<lambda>daq_number.
        Inr [\<lparr>frame_name = ''AL_ODT_'' @ daq_list,
              DATA = ''D400'' @ daq_number @ format_X 2 (length odts)\<rparr>])))"

text \<open>Lines 810 to 818: one \<^verbatim>\<open>ALLOC_ODT_ENTRY\<close> per ODT.\<close>

definition xcp_alloc_odt_entry :: "grouped_signal list \<Rightarrow> string \<Rightarrow> string \<Rightarrow> string \<Rightarrow> error + frame list" where
  "xcp_alloc_odt_entry signals_grouped daq_list daq_number odt =
     (let entries = filter (\<lambda>s. DAQ_LIST_NUMBER s = daq_list \<and> ODT_NUMBER s = odt) signals_grouped in
      bindE (int16 odt) (\<lambda>odt_int.
      bindE (to_bytes_hex 1 big odt_int) (\<lambda>odt_number.
        Inr [\<lparr>frame_name = ''AL_ODT_ENT_'' @ odt,
              DATA = ''D300'' @ daq_number @ odt_number @ format_X 2 (length entries)\<rparr>])))"

definition xcp_alloc_odt_entries :: "byte_order \<Rightarrow> grouped_signal list \<Rightarrow> string \<Rightarrow> error + frame list" where
  "xcp_alloc_odt_entries byte_order signals_grouped daq_list =
     (let odts = sorted_ids ODT_NUMBER (filter (\<lambda>s. DAQ_LIST_NUMBER s = daq_list) signals_grouped) in
      bindE (int16 daq_list) (\<lambda>d.
      bindE (to_bytes_hex 2 byte_order d) (\<lambda>daq_number.
        for_frames (xcp_alloc_odt_entry signals_grouped daq_list daq_number) odts)))"

text \<open>Line 840 and line 846: the \<^verbatim>\<open>WRITE_DAQ_MULTIPLE\<close> frame of the pending descriptors.\<close>

definition write_daq_multi :: "string list \<Rightarrow> frame" where
  "write_daq_multi frame_data =
     \<lparr>frame_name = ''WRITE_DAQ_MULTI'',
      DATA = ljust0 128 (''C7'' @ format_X 2 (length frame_data) @ concat frame_data)\<rparr>"

text \<open>
  Lines 834 to 843: the body of the loop over the signals of an ODT when
  \<^verbatim>\<open>max_cto == 64\<close>; the loop variable is \<^verbatim>\<open>frame_data\<close>. The descriptor
  \<^verbatim>\<open>signal_entry\<close> of lines 835 to 837 comes first.
\<close>

definition signal_entry :: "byte_order \<Rightarrow> grouped_signal \<Rightarrow> error + string" where
  "signal_entry byte_order s =
     (let len = Length s in
      bindE (int16 (ECU_ADDRESS s)) (\<lambda>a.
      bindE (to_bytes_hex 4 byte_order a) (\<lambda>ecu_address.
        Inr (bit_offset @ format_X 2 len @ ecu_address @ address_extension @ dummy_byte))))"

definition xcp_multi_entry :: "byte_order \<Rightarrow> nat \<Rightarrow> string list \<Rightarrow> grouped_signal \<Rightarrow> error + (string list \<times> frame list)" where
  "xcp_multi_entry byte_order max_payload_size frame_data s =
     bindE (signal_entry byte_order s) (\<lambda>signal_entry.
       if length (concat frame_data @ signal_entry) div 2 > max_payload_size
       then Inr ([signal_entry], [write_daq_multi frame_data])
       else Inr (frame_data @ [signal_entry], []))"

definition xcp_write_multi :: "byte_order \<Rightarrow> nat \<Rightarrow> grouped_signal list \<Rightarrow> error + frame list" where
  "xcp_write_multi byte_order max_payload_size odt_signals =
     bindE (for_state (xcp_multi_entry byte_order max_payload_size) [] odt_signals)
       (\<lambda>(frame_data, fs).
          Inr (if frame_data \<noteq> [] then fs @ [write_daq_multi frame_data] else fs))"

text \<open>Lines 848 to 851: one \<^verbatim>\<open>WRITE_DAQ\<close> per signal; \<^verbatim>\<open>enumerate\<close> pairs it with its index.\<close>

definition xcp_write_daq :: "byte_order \<Rightarrow> nat \<times> grouped_signal \<Rightarrow> error + frame list" where
  "xcp_write_daq byte_order item =
     (case item of (idx, s) \<Rightarrow>
      let len = Length s in
      bindE (int16 (ECU_ADDRESS s)) (\<lambda>a.
      bindE (to_bytes_hex 4 byte_order a) (\<lambda>ecu_address.
        Inr [\<lparr>frame_name = ''WRITE_DAQ_0x'' @ format_X 2 idx,
              DATA = ''E1FF'' @ format_X 2 len @ address_extension @ ecu_address\<rparr>])))"

text \<open>Lines 825 to 851: \<^verbatim>\<open>SET_DAQ_PTR\<close> once per ODT, then its entries.\<close>

definition xcp_odt :: "byte_order \<Rightarrow> nat \<Rightarrow> nat \<Rightarrow> string \<Rightarrow> grouped_signal list \<Rightarrow> string \<Rightarrow> error + frame list" where
  "xcp_odt byte_order max_cto max_payload_size daq_list daq_signals odt =
     (let odt_signals = filter (\<lambda>s. ODT_NUMBER s = odt) daq_signals in
      bindE (int16 daq_list) (\<lambda>d.
      bindE (to_bytes_hex 2 byte_order d) (\<lambda>daq_number.
      bindE (int16 odt) (\<lambda>odt_int.
      bindE (to_bytes_hex 1 big odt_int) (\<lambda>odt_number.
      bindE (if max_cto = 64 then xcp_write_multi byte_order max_payload_size odt_signals
             else for_frames (xcp_write_daq byte_order) (enumerate 0 odt_signals))
        (\<lambda>fs.
          Inr (\<lparr>frame_name = ''SET_DAQ_PTR'',
                DATA = ''E200'' @ daq_number @ odt_number @ ''00''\<rparr> # fs)))))))"

definition xcp_write_daq_list :: "byte_order \<Rightarrow> nat \<Rightarrow> nat \<Rightarrow> grouped_signal list \<Rightarrow> string \<Rightarrow> error + frame list" where
  "xcp_write_daq_list byte_order max_cto max_payload_size signals_grouped daq_list =
     (let daq_signals = filter (\<lambda>s. DAQ_LIST_NUMBER s = daq_list) signals_grouped;
          odts = sorted_ids ODT_NUMBER daq_signals
      in for_frames (xcp_odt byte_order max_cto max_payload_size daq_list daq_signals) odts)"

text \<open>Lines 854 to 867: \<^verbatim>\<open>SET_DAQ_LIST_MODE\<close> with the priority of the first matching event.\<close>

definition xcp_set_daq_list_mode :: "byte_order \<Rightarrow> event list \<Rightarrow> grouped_signal list \<Rightarrow> string \<Rightarrow> error + frame list" where
  "xcp_set_daq_list_mode byte_order events signals_grouped daq_list =
     bindE (event_channel_of signals_grouped daq_list) (\<lambda>event_channel.
       let event_priority =
             (case find (\<lambda>ev. EventChannelNumber ev = event_channel) events of
                None \<Rightarrow> ''00''
              | Some ev \<Rightarrow> remove2 (CHR ''0'') (CHR ''X'') (upper (EventPriority ev)))
       in
       bindE (int16 daq_list) (\<lambda>d.
       bindE (to_bytes_hex 2 byte_order d) (\<lambda>daq_number.
       bindE (to_bytes_hex 2 byte_order event_channel) (\<lambda>event_channel_hex.
         Inr [\<lparr>frame_name = ''SET_DAQ_LIST_MOD'',
               DATA = ''E000'' @ daq_number @ event_channel_hex @ prescaler @ event_priority\<rparr>]))))"

text \<open>Lines 870 to 872.\<close>

definition xcp_start_stop_daq :: "byte_order \<Rightarrow> string \<Rightarrow> error + frame list" where
  "xcp_start_stop_daq byte_order daq_list =
     bindE (int16 daq_list) (\<lambda>d.
     bindE (to_bytes_hex 2 byte_order d) (\<lambda>daq_number.
       Inr [\<lparr>frame_name = ''START_STOP_DAQ'', DATA = ''DE'' @ start_stop_mode @ daq_number\<rparr>]))"

definition create_daq_frames_xcp :: "grouped_signal list \<Rightarrow> a2l_params \<Rightarrow> error + frame list" where
  "create_daq_frames_xcp signals_grouped params =
     (let byte_order = BYTE_ORDER params in
      bindE (int16 (MAX_CTO params)) (\<lambda>cto.
      let max_cto = min cto 64;
          max_payload_size = 64 - 1;
          daq_lists = sorted_ids DAQ_LIST_NUMBER signals_grouped in
      bindE (to_bytes_hex 2 byte_order (length daq_lists)) (\<lambda>daq_count.
      bindE (for_frames (xcp_alloc_odt byte_order signals_grouped) daq_lists) (\<lambda>al_odt.
      bindE (for_frames (xcp_alloc_odt_entries byte_order signals_grouped) daq_lists) (\<lambda>al_odt_entry.
      bindE (for_frames (xcp_write_daq_list byte_order max_cto max_payload_size signals_grouped) daq_lists) (\<lambda>writes.
      bindE (for_frames (xcp_set_daq_list_mode byte_order (EVENTS params) signals_grouped) daq_lists) (\<lambda>modes.
      bindE (for_frames (xcp_start_stop_daq byte_order) daq_lists) (\<lambda>starts.
        Inr ([\<lparr>frame_name = ''CONNECT'', DATA = ''FF00''\<rparr>,
              \<lparr>frame_name = ''GET_STATUS'', DATA = ''FD''\<rparr>,
              \<lparr>frame_name = ''FREE_DAQ'', DATA = ''D6''\<rparr>,
              \<lparr>frame_name = ''AL_DAQ'', DATA = ''D500'' @ daq_count\<rparr>]
             @ al_odt @ al_odt_entry @ writes @ modes @ starts
             @ [\<lparr>frame_name = ''START_STOP_SYNCH'', DATA = ''DD01''\<rparr>])))))))))"

section \<open>Transmit schedule: \<^verbatim>\<open>create_transmit_list\<close>\<close>

record settings =
  start_delay :: int
  frame_spacing :: int
  max_frames :: int
  max_data_bytes :: int

text \<open>One entry of the transmit list (keys \<^verbatim>\<open>name\<close>, \<^verbatim>\<open>state\<close>, ..., \<^verbatim>\<open>data\<close>).\<close>

record transmit_entry =
  te_name :: string
  te_state :: nat
  te_id_format :: nat
  te_frame_format :: nat
  te_brs :: nat
  te_log :: nat
  te_period :: nat
  te_delay :: int
  te_id :: string
  te_data :: string

text \<open>
  Lines 905 to 923: the loop over the frames; its variables are \<^verbatim>\<open>delay\<close> and
  \<^verbatim>\<open>total_data_bytes\<close>, its result the entries appended to \<^verbatim>\<open>transmit_list\<close>.
\<close>

fun transmit_loop :: "nat \<Rightarrow> nat \<Rightarrow> nat \<Rightarrow> string \<Rightarrow> int \<Rightarrow> int \<Rightarrow> nat \<Rightarrow> frame list \<Rightarrow> transmit_entry list \<times> int \<times> nat" where
  "transmit_loop id_format frame_format_default brs can_id_master spacing delay total_data_bytes [] =
     ([], delay, total_data_bytes)"
| "transmit_loop id_format frame_format_default brs can_id_master spacing delay total_data_bytes (f # rest) =
     (let frame_format = (if length (DATA f) > 16 then 1 else frame_format_default);
          frame_data_length = length (DATA f) div 2;
          entry = \<lparr>te_name = frame_name f, te_state = 1, te_id_format = id_format,
                   te_frame_format = frame_format, te_brs = brs, te_log = 1, te_period = 0,
                   te_delay = delay, te_id = can_id_master, te_data = DATA f\<rparr>
      in case transmit_loop id_format frame_format_default brs can_id_master spacing
                (delay + spacing) (total_data_bytes + frame_data_length) rest of
           (entries, delay', total') \<Rightarrow> (entry # entries, delay', total'))"

text \<open>
  The file system is a map from paths to the transmit list written there;
  \<open>output_transmit\<close> is the path after \<^verbatim>\<open>with_suffix(".json")\<close>. The result is
  \<^verbatim>\<open>sys.exit\<close> (left) or the serialised list (right), with the file system afterwards.
\<close>

definition create_transmit_list ::
  "frame list \<Rightarrow> a2l_params \<Rightarrow> settings \<Rightarrow> string \<Rightarrow> (string \<rightharpoonup> transmit_entry list)
     \<Rightarrow> (error + transmit_entry list) \<times> (string \<rightharpoonup> transmit_entry list)" where
  "create_transmit_list daq_frames params stg output_transmit files =
     (let fd_differs = (CAN_FD_DATA_TRANSFER_BAUDRATE params \<noteq> None
                        \<and> CAN_FD_DATA_TRANSFER_BAUDRATE params \<noteq> Some (BAUDRATE params));
          frame_format_default = (if fd_differs then 1 else 0);
          brs = (if fd_differs then 1 else 0);
          can_id_master = upper (remove2 (CHR ''0'') (CHR ''x'') (CAN_ID_MASTER params));
          id_format = (if CAN_ID_MASTER_EXTENDED params then 1 else 0)
      in case transmit_loop id_format frame_format_default brs can_id_master (frame_spacing stg)
                (start_delay stg) 0 daq_frames of
           (transmit_list, delay, total_data_bytes) \<Rightarrow>
             if int (length transmit_list) > max_frames stg
               then (Inl (FrameLimitExceeded (length transmit_list) (max_frames stg)), files)
             else if int total_data_bytes > max_data_bytes stg
               then (Inl (DataBytesExceeded total_data_bytes (max_data_bytes stg)), files)
             else (Inr transmit_list, files(output_transmit \<mapsto> transmit_list)))"

section \<open>Decode layout: \<^verbatim>\<open>create_dbc\<close>\<close>

text \<open>
  One \<^verbatim>\<open>SG_\<close> line of the DBC file: the multiplexor value \<^verbatim>\<open>m{pid_counter}\<close>, the start
  bit, the bit length, the byte order flag, the sign and the scaling fields. The line's
  signal name (the A2L name, optionally shortened and made unique) is represented by the
  A2L name it is derived from.
\<close>

record decode_row =
  original_signal_name :: string
  multiplexor_value :: nat
  start_bit :: nat
  bit_length :: nat
  byte_order_flag :: char
  sign :: char
  scale :: string
  offset :: string
  lower_limit :: string
  upper_limit :: string
  unit :: string

text \<open>Lines 1040 to 1087: the loop over the signals of one ODT; \<^verbatim>\<open>bit_start\<close> is its variable.\<close>

fun dbc_signals :: "char \<Rightarrow> nat \<Rightarrow> nat \<Rightarrow> grouped_signal list \<Rightarrow> decode_row list" where
  "dbc_signals flag pid_counter bit_start [] = []"
| "dbc_signals flag pid_counter bit_start (s # rest) =
     (let bit_len = Length s * 8;
          dbc_start_bit = (if flag = CHR ''0'' then bit_start + 7 else bit_start)
      in \<lparr>original_signal_name = Name s,
          multiplexor_value = pid_counter,
          start_bit = dbc_start_bit,
          bit_length = bit_len,
          byte_order_flag = flag,
          sign = (if Signage s = ''unsigned'' then CHR ''+'' else CHR ''-''),
          scale = Scale s, offset = Offset s,
          lower_limit = LowerLimit s, upper_limit = UpperLimit s, unit = Unit s\<rparr>
         # dbc_signals flag pid_counter (bit_start + bit_len) rest)"

text \<open>
  Lines 1036 to 1088: the loop over the ODTs of one DAQ list. Each ODT contributes one
  block: its DAQ list, its ODT id and the rows appended for it; \<^verbatim>\<open>pid_counter\<close> is the
  loop variable.
\<close>

fun dbc_odts :: "char \<Rightarrow> grouped_signal list \<Rightarrow> string \<Rightarrow> nat \<Rightarrow> string list
    \<Rightarrow> nat \<times> (string \<times> string \<times> decode_row list) list" where
  "dbc_odts flag signals_grouped daq_list pid_counter [] = (pid_counter, [])"
| "dbc_odts flag signals_grouped daq_list pid_counter (odt # rest) =
     (let odt_signals = filter (\<lambda>s. DAQ_LIST_NUMBER s = daq_list \<and> ODT_NUMBER s = odt) signals_grouped;
          rows = dbc_signals flag pid_counter 8 odt_signals
      in case dbc_odts flag signals_grouped daq_list (pid_counter + 1) rest of
           (pid', blocks) \<Rightarrow> (pid', (daq_list, odt, rows) # blocks))"

text \<open>
  Line 1031: the first entry of \<^verbatim>\<open>DAQ_LISTS\<close> whose \<^verbatim>\<open>Id\<close> has the integer value of
  the DAQ list id; the generator parses both texts for each entry it visits.
\<close>

fun find_daq_list_entry :: "daq_list_entry list \<Rightarrow> string \<Rightarrow> error + daq_list_entry option" where
  "find_daq_list_entry [] daq_list = Inr None"
| "find_daq_list_entry (dl # rest) daq_list =
     bindE (int16 (dl_Id dl)) (\<lambda>a.
     bindE (int16 daq_list) (\<lambda>b.
       if a = b then Inr (Some dl) else find_daq_list_entry rest daq_list))"

text \<open>Lines 1030 to 1033: for CCP the counter restarts at the first PID of the DAQ list.\<close>

definition first_pid :: "protocol \<Rightarrow> a2l_params \<Rightarrow> nat \<Rightarrow> string \<Rightarrow> error + nat" where
  "first_pid proto params pid_counter daq_list =
     (if proto = ccp then
        (case DAQ_LISTS params of
           None \<Rightarrow> Inl KeyError
         | Some dls \<Rightarrow>
             bindE (find_daq_list_entry dls daq_list) (\<lambda>daq_list_entry.
               case daq_list_entry of
                 None \<Rightarrow> Inr pid_counter
               | Some e \<Rightarrow> int16 (dl_FirstPID e)))
      else Inr pid_counter)"

text \<open>Lines 1027 to 1088: the loop over the DAQ lists.\<close>

fun dbc_daq_lists :: "protocol \<Rightarrow> a2l_params \<Rightarrow> char \<Rightarrow> grouped_signal list \<Rightarrow> nat \<Rightarrow> string list
    \<Rightarrow> error + (string \<times> string \<times> decode_row list) list" where
  "dbc_daq_lists proto params flag signals_grouped pid_counter [] = Inr []"
| "dbc_daq_lists proto params flag signals_grouped pid_counter (daq_list # rest) =
     bindE (first_pid proto params pid_counter daq_list) (\<lambda>pid1.
       let odts = sorted_ids ODT_NUMBER (filter (\<lambda>s. DAQ_LIST_NUMBER s = daq_list) signals_grouped)
       in case dbc_odts flag signals_grouped daq_list pid1 odts of
            (pid2, blocks) \<Rightarrow>
              bindE (dbc_daq_lists proto params flag signals_grouped pid2 rest) (\<lambda>blocks'.
                Inr (blocks @ blocks')))"

definition dbc_blocks :: "grouped_signal list \<Rightarrow> a2l_params \<Rightarrow> protocol
    \<Rightarrow> error + (string \<times> string \<times> decode_row list) list" where
  "dbc_blocks signals_grouped params proto =
     (let flag = (if BYTE_ORDER params = little then CHR ''1'' else CHR ''0'') in
      bindE (int16 (CAN_ID_SLAVE params)) (\<lambda>can_id_slave.
      bindE (int16 (MAX_CTO params)) (\<lambda>cto.
      bindE (if cto > 8 then Inr 0 else int16 (MAX_DTO params)) (\<lambda>dto.
        let pid_counter = 0 in
        dbc_daq_lists proto params flag signals_grouped pid_counter
          (sorted_ids DAQ_LIST_NUMBER signals_grouped)))))"

text \<open>The \<^verbatim>\<open>SG_\<close> lines of the file in the order they are appended.\<close>

definition create_dbc :: "grouped_signal list \<Rightarrow> a2l_params \<Rightarrow> protocol \<Rightarrow> error + decode_row list" where
  "create_dbc signals_grouped params proto =
     bindE (dbc_blocks signals_grouped params proto) (\<lambda>blocks.
       Inr (concat (map (\<lambda>b. snd (snd b)) blocks)))"

section \<open>Vocabulary of the properties\<close>

text \<open>
  The order in which distinct values first occur in a list: the key order of a Python
  dictionary filled by iterating over the list.
\<close>

definition first_seen :: "'a list \<Rightarrow> 'a list" where
  "first_seen xs = rev (remdups (rev xs))"

text \<open>The members of the ODT \<open>od\<close> of DAQ list \<open>d\<close>, in output order, and their summed length.\<close>

definition odt_members :: "string \<Rightarrow> string \<Rightarrow> grouped_signal list \<Rightarrow> grouped_signal list" where
  "odt_members d od signals_grouped =
     filter (\<lambda>g. DAQ_LIST_NUMBER g = d \<and> ODT_NUMBER g = od) signals_grouped"

definition odt_bytes :: "string \<Rightarrow> string \<Rightarrow> grouped_signal list \<Rightarrow> nat" where
  "odt_bytes d od signals_grouped = sum_list (map Length (odt_members d od signals_grouped))"

text \<open>Sample inputs: an unsigned signal and a parameter set as the A2L loaders build them.\<close>

definition sample_signal :: "string \<Rightarrow> string \<Rightarrow> string \<Rightarrow> nat \<Rightarrow> signal" where
  "sample_signal nm event_channel address len =
     \<lparr>Name = nm, EventConfigured = event_channel, ECU_ADDRESS = address, Length = len,
      Signage = ''unsigned'', LowerLimit = ''0'', UpperLimit = ''255'',
      Scale = ''1'', Offset = ''0'', Unit = []\<rparr>"

definition sample_params :: "string \<Rightarrow> string \<Rightarrow> byte_order \<Rightarrow> daq_list_entry list option \<Rightarrow> a2l_params" where
  "sample_params cto dto order dls =
     \<lparr>MAX_CTO = cto, MAX_DTO = dto, BYTE_ORDER = order, BYTES_ONLY = False,
      DAQ_LISTS = dls,
      EVENTS = [\<lparr>EventChannelNumber = 3, EventPriority = ''0x02''\<rparr>],
      CAN_ID_MASTER = ''0x7e0'', CAN_ID_MASTER_EXTENDED = False,
      CAN_ID_SLAVE = ''0x7e8'', CAN_ID_SLAVE_EXTENDED = False,
      CAN_ID_DTO = ''0x7e8'', ECU_STATION_ADDRESS = ''0x0001'',
      BAUDRATE = 500000, CAN_FD_DATA_TRANSFER_BAUDRATE = None\<rparr>"

definition sA :: signal where "sA = sample_signal ''EngineSpeed'' ''3'' ''0x40001000'' 2"
definition sB :: signal where "sB = sample_signal ''VehicleSpeed'' ''3'' ''0x40001002'' 2"
definition sC :: signal where "sC = sample_signal ''OilTemp'' ''1'' ''0x40002000'' 1"
definition sD :: signal where "sD = sample_signal ''Odometer'' ''3'' ''0x40003000'' 4"

text \<open>The frames of the CCP encoding of two signals in one ODT.\<close>

definition ccp_sample_frames :: "frame list" where
  "ccp_sample_frames =
     [\<lparr>frame_name = ''CONNECT'', DATA = ''01010100AAAAAAAA''\<rparr>,
      \<lparr>frame_name = ''EXCHANGE_ID'', DATA = ''1702AAAAAAAAAAAA''\<rparr>,
      \<lparr>frame_name = ''GET_DAQ_SIZE_00'', DATA = ''140300AA000007E8''\<rparr>,
      \<lparr>frame_name = ''PTR_D00_O00_E00'', DATA = ''1504000000AAAAAA''\<rparr>,
      \<lparr>frame_name = ''WRITE_DAQ'', DATA = ''1605020040001000''\<rparr>,
      \<lparr>frame_name = ''PTR_D00_O00_E01'', DATA = ''1506000001AAAAAA''\<rparr>,
      \<lparr>frame_name = ''WRITE_DAQ'', DATA = ''1607020040001002''\<rparr>,
      \<lparr>frame_name = ''START_STOP_D00'', DATA = ''0608020000030001''\<rparr>,
      \<lparr>frame_name = ''START_STOP_ALL'', DATA = ''080901AAAAAAAAAA''\<rparr>]"

text \<open>
  Thirty-two four-byte signals of one event channel, each alone in its ODT, and parameters
  of an ECU that addresses single bytes only.
\<close>

definition wide_signal :: "nat \<Rightarrow> signal" where
  "wide_signal k = sample_signal (''Torque_'' @ format_X 2 k) ''3'' (hex_id 8 (1073745920 + 4 * k)) 4"

definition wide_grouping :: "grouped_signal list" where
  "wide_grouping = map (\<lambda>k. assign (wide_signal k) 0 k 0) [0 ..< 32]"

definition bytes_only_params :: a2l_params where
  "bytes_only_params = (sample_params ''0x08'' ''0x08'' big (Some []))\<lparr>BYTES_ONLY := True\<rparr>"

text \<open>The hexadecimal text of the second payload byte of a frame: the CCP command counter.\<close>

definition counter_byte :: "frame \<Rightarrow> string" where
  "counter_byte f = take 2 (drop 2 (DATA f))"

text \<open>The frames carry the counter values \<open>c\<close>, \<open>c + 1\<close>, ... in order.\<close>

definition counted_from :: "nat \<Rightarrow> frame list \<Rightarrow> bool" where
  "counted_from c fs = (\<forall>i < length fs. ctr_hex (c + i) = Inr (counter_byte (fs ! i)))"

text \<open>A loop body that advances the counter by the number of frames it appends.\<close>

definition steps_counter :: "('s \<Rightarrow> nat) \<Rightarrow> ('s \<Rightarrow> 'a \<Rightarrow> error + ('s \<times> frame list)) \<Rightarrow> bool" where
  "steps_counter ctr body \<longleftrightarrow>
     (\<forall>st x st' fs. body st x = Inr (st', fs) \<longrightarrow>
        ctr st' = ctr st + length fs \<and> counted_from (ctr st) fs)"

text \<open>
  The number of frames the CCP command sequence consists of: two opening frames, per DAQ
  list one \<^verbatim>\<open>GET_DAQ_SIZE\<close> and two frames per written entry, one \<^verbatim>\<open>START_STOP\<close> per DAQ
  list and the closing \<^verbatim>\<open>START_STOP_ALL\<close>.
\<close>

definition ccp_signal_frames :: "bool \<Rightarrow> grouped_signal \<Rightarrow> nat" where
  "ccp_signal_frames bytes_only s = (if bytes_only then 2 * Length s else 2)"

definition ccp_odt_frames :: "bool \<Rightarrow> grouped_signal list \<Rightarrow> string \<Rightarrow> nat" where
  "ccp_odt_frames bytes_only daq_signals od =
     sum_list (map (ccp_signal_frames bytes_only) (filter (\<lambda>s. ODT_NUMBER s = od) daq_signals))"

definition ccp_daq_list_frames :: "bool \<Rightarrow> grouped_signal list \<Rightarrow> string \<Rightarrow> nat" where
  "ccp_daq_list_frames bytes_only signals_grouped d =
     (let daq_signals = filter (\<lambda>s. DAQ_LIST_NUMBER s = d) signals_grouped
      in 1 + sum_list (map (ccp_odt_frames bytes_only daq_signals) (sorted_ids ODT_NUMBER daq_signals)))"

definition ccp_frames_needed :: "bool \<Rightarrow> grouped_signal list \<Rightarrow> nat" where
  "ccp_frames_needed bytes_only signals_grouped =
     (let daq_lists = sorted_ids DAQ_LIST_NUMBER signals_grouped
      in 2 + sum_list (map (ccp_daq_list_frames bytes_only signals_grouped) daq_lists)
           + length daq_lists + 1)"

text \<open>The cumulative payload byte count of line 908: half the length of each hex text.\<close>

definition payload_bytes :: "frame list \<Rightarrow> nat" where
  "payload_bytes daq_frames = sum_list (map (\<lambda>f. length (DATA f) div 2) daq_frames)"

text \<open>Settings: the script's own (\<open>default_settings\<close>), a zero frame spacing, a small byte budget.\<close>

definition zero_spacing :: settings where
  "zero_spacing = \<lparr>start_delay = 1000, frame_spacing = 0, max_frames = 224, max_data_bytes = 4096\<rparr>"

definition default_settings :: settings where
  "default_settings = \<lparr>start_delay = 1000, frame_spacing = 10, max_frames = 224, max_data_bytes = 4096\<rparr>"

definition tight_settings :: settings where
  "tight_settings = \<lparr>start_delay = 1000, frame_spacing = 10, max_frames = 224, max_data_bytes = 64\<rparr>"

text \<open>A transmit entry of a classic frame sent with the standard master id \<^verbatim>\<open>7E0\<close>.\<close>

definition sample_entry :: "string \<Rightarrow> int \<Rightarrow> string \<Rightarrow> transmit_entry" where
  "sample_entry nm d dat =
     \<lparr>te_name = nm, te_state = 1, te_id_format = 0, te_frame_format = 0, te_brs = 0,
      te_log = 1, te_period = 0, te_delay = d, te_id = ''7E0'', te_data = dat\<rparr>"

definition two_frames :: "frame list" where
  "two_frames = [\<lparr>frame_name = ''CONNECT'', DATA = ''FF00''\<rparr>, \<lparr>frame_name = ''GET_STATUS'', DATA = ''FD''\<rparr>]"

text \<open>Consecutive pieces of \<open>n\<close> elements; the last piece holds the remainder.\<close>

function chunks :: "nat \<Rightarrow> 'a list \<Rightarrow> 'a list list" where
  "chunks n xs = (if n = 0 \<or> xs = [] then [] else take n xs # chunks n (drop n xs))"
  by pat_completeness auto
termination
  by (relation "measure (\<lambda>(n, xs). length xs)") auto

declare chunks.simps [simp del]

text \<open>The ODTs of a grouping in the order of the encoder's loops: DAQ lists ascending, ODTs ascending.\<close>

definition odt_keys :: "grouped_signal list \<Rightarrow> (string \<times> string) list" where
  "odt_keys signals_grouped =
     concat (map (\<lambda>d. map (Pair d)
                   (sorted_ids ODT_NUMBER (filter (\<lambda>s. DAQ_LIST_NUMBER s = d) signals_grouped)))
               (sorted_ids DAQ_LIST_NUMBER signals_grouped))"

text \<open>The frames written for one ODT when \<^verbatim>\<open>max_cto\<close> is 64: \<^verbatim>\<open>SET_DAQ_PTR\<close>, then the
  descriptors of its entries in pieces of seven, one \<^verbatim>\<open>WRITE_DAQ_MULTIPLE\<close> frame per
  piece. A descriptor is 8 bytes (16 hex digits) beginning with \<^verbatim>\<open>FF\<close>; a frame is
  \<^verbatim>\<open>C7\<close>, the number of its descriptors, the descriptors, and zeros up to 64 bytes.
\<close>

definition multi_block :: "byte_order \<Rightarrow> grouped_signal list \<Rightarrow> string \<times> string \<Rightarrow> frame list \<Rightarrow> bool" where
  "multi_block bo signals_grouped key block \<longleftrightarrow>
     (\<exists>ptr descs.
        map (signal_entry bo) (odt_members (fst key) (snd key) signals_grouped) = map Inr descs
      \<and> (\<forall>d \<in> set descs. length d = 16 \<and> take 2 d = ''FF'')
      \<and> frame_name ptr = ''SET_DAQ_PTR''
      \<and> block = ptr # map write_daq_multi (chunks 7 descs)
      \<and> concat (chunks 7 descs) = descs
      \<and> (\<forall>c \<in> set (chunks 7 descs).
            1 \<le> length c \<and> length c \<le> 7
          \<and> DATA (write_daq_multi c) =
              ''C7'' @ format_X 2 (length c) @ concat c @ replicate (124 - 16 * length c) (CHR ''0'')
          \<and> length (DATA (write_daq_multi c)) = 128))"

text \<open>Nine one-byte signals in one ODT and the parameters of a CAN FD slave with \<^verbatim>\<open>MAX_CTO\<close> 64.\<close>

definition flag_signal :: "nat \<Rightarrow> signal" where
  "flag_signal k = sample_signal (''Flag_'' @ format_X 2 k) ''3'' (hex_id 8 (1073750016 + k)) 1"

definition fd_grouping :: "grouped_signal list" where
  "fd_grouping = map (\<lambda>k. assign (flag_signal k) 0 0 k) [0 ..< 9]"

definition fd_params :: a2l_params where
  "fd_params = sample_params ''0x0040'' ''0x0040'' little None"

text \<open>The XCP frames for these signals: seven descriptors in the first \<^verbatim>\<open>WRITE_DAQ_MULTIPLE\<close> frame, two in the second.\<close>

definition xcp_fd_frames :: "frame list" where
  "xcp_fd_frames =
     [\<lparr>frame_name = ''CONNECT'', DATA = ''FF00''\<rparr>,
      \<lparr>frame_name = ''GET_STATUS'', DATA = ''FD''\<rparr>,
      \<lparr>frame_name = ''FREE_DAQ'', DATA = ''D6''\<rparr>,
      \<lparr>frame_name = ''AL_DAQ'', DATA = ''D5000100''\<rparr>,
      \<lparr>frame_name = ''AL_ODT_0x0000'', DATA = ''D400000001''\<rparr>,
      \<lparr>frame_name = ''AL_ODT_ENT_0x00'', DATA = ''D30000000009''\<rparr>,
      \<lparr>frame_name = ''SET_DAQ_PTR'', DATA = ''E20000000000''\<rparr>,
      \<lparr>frame_name = ''WRITE_DAQ_MULTI'', DATA = ''C707FF01002000400000FF01012000400000FF01022000400000FF01032000400000FF01042000400000FF01052000400000FF01062000400000000000000000''\<rparr>,
      \<lparr>frame_name = ''WRITE_DAQ_MULTI'', DATA = ''C702FF01072000400000FF0108200040000000000000000000000000000000000000000000000000000000000000000000000000000000000000000000000000''\<rparr>,
      \<lparr>frame_name = ''SET_DAQ_LIST_MOD'', DATA = ''E000000003000102''\<rparr>,
      \<lparr>frame_name = ''START_STOP_DAQ'', DATA = ''DE020000''\<rparr>,
      \<lparr>frame_name = ''START_STOP_SYNCH'', DATA = ''DD01''\<rparr>]"






text \<open>Sample inputs for the decode layout: a row of a sample signal, two more signals of four bytes, a grouping with two DAQ lists, the first with two ODTs, and CCP parameters that declare the first PIDs 0 and 10.\<close>

definition sample_row :: "char \<Rightarrow> string \<Rightarrow> nat \<Rightarrow> nat \<Rightarrow> nat \<Rightarrow> decode_row" where
  "sample_row flag nm pid start len =
     \<lparr>original_signal_name = nm, multiplexor_value = pid, start_bit = start, bit_length = len,
      byte_order_flag = flag, sign = CHR ''+'', scale = ''1'', offset = ''0'',
      lower_limit = ''0'', upper_limit = ''255'', unit = []\<rparr>"

definition sE :: signal where "sE = sample_signal ''FuelUsed'' ''3'' ''0x40003004'' 4"

definition sF :: signal where "sF = sample_signal ''TripTime'' ''3'' ''0x40003008'' 4"




text \<open>The end-to-end example of the specification: the grouping of the two signals \<open>sA\<close> and \<open>sB\<close> of event channel 3, and the frames of its XCP encoding with \<^verbatim>\<open>MAX_CTO\<close> 8 for the two byte orders.\<close>

definition example_grouping :: "grouped_signal list" where
  "example_grouping = [assign sA 0 0 0, assign sB 0 0 1]"

definition example_frames_little :: "frame list" where
  "example_frames_little =
     [\<lparr>frame_name = ''CONNECT'', DATA = ''FF00''\<rparr>,
      \<lparr>frame_name = ''GET_STATUS'', DATA = ''FD''\<rparr>,
      \<lparr>frame_name = ''FREE_DAQ'', DATA = ''D6''\<rparr>,
      \<lparr>frame_name = ''AL_DAQ'', DATA = ''D5000100''\<rparr>,
      \<lparr>frame_name = ''AL_ODT_0x0000'', DATA = ''D400000001''\<rparr>,
      \<lparr>frame_name = ''AL_ODT_ENT_0x00'', DATA = ''D30000000002''\<rparr>,
      \<lparr>frame_name = ''SET_DAQ_PTR'', DATA = ''E20000000000''\<rparr>,
      \<lparr>frame_name = ''WRITE_DAQ_0x00'', DATA = ''E1FF020000100040''\<rparr>,
      \<lparr>frame_name = ''WRITE_DAQ_0x01'', DATA = ''E1FF020002100040''\<rparr>,
      \<lparr>frame_name = ''SET_DAQ_LIST_MOD'', DATA = ''E000000003000102''\<rparr>,
      \<lparr>frame_name = ''START_STOP_DAQ'', DATA = ''DE020000''\<rparr>,
      \<lparr>frame_name = ''START_STOP_SYNCH'', DATA = ''DD01''\<rparr>]"

definition example_frames_big :: "frame list" where
  "example_frames_big =
     [\<lparr>frame_name = ''CONNECT'', DATA = ''FF00''\<rparr>,
      \<lparr>frame_name = ''GET_STATUS'', DATA = ''FD''\<rparr>,
      \<lparr>frame_name = ''FREE_DAQ'', DATA = ''D6''\<rparr>,
      \<lparr>frame_name = ''AL_DAQ'', DATA = ''D5000001''\<rparr>,
      \<lparr>frame_name = ''AL_ODT_0x0000'', DATA = ''D400000001''\<rparr>,
      \<lparr>frame_name = ''AL_ODT_ENT_0x00'', DATA = ''D30000000002''\<rparr>,
      \<lparr>frame_name = ''SET_DAQ_PTR'', DATA = ''E20000000000''\<rparr>,
      \<lparr>frame_name = ''WRITE_DAQ_0x00'', DATA = ''E1FF020040001000''\<rparr>,
      \<lparr>frame_name = ''WRITE_DAQ_0x01'', DATA = ''E1FF020040001002''\<rparr>,
      \<lparr>frame_name = ''SET_DAQ_LIST_MOD'', DATA = ''E000000000030102''\<rparr>,
      \<lparr>frame_name = ''START_STOP_DAQ'', DATA = ''DE020000''\<rparr>,
      \<lparr>frame_name = ''START_STOP_SYNCH'', DATA = ''DD01''\<rparr>]"

text \<open>CCP parameters that declare a capacity of two ODTs for the DAQ list whose number is written \<open>daq_id\<close>, with first PID 0.\<close>

definition capacity_params :: "string \<Rightarrow> a2l_params" where
  "capacity_params daq_id = sample_params ''0x08'' ''0x08'' little
     (Some [\<lparr>dl_Id = daq_id, dl_Length = ''0x02'', dl_FirstPID = ''0x00''\<rparr>])"

section \<open>Sequencing of fallible steps\<close>

lemma bindE_Inr_iff: "bindE m f = Inr y \<longleftrightarrow> (\<exists>v. m = Inr v \<and> f v = Inr y)"
  by (cases m) (simp_all add: bindE_def)

lemma bindE_Inr [simp]: "bindE (Inr v) f = f v"
  by (simp add: bindE_def)

lemma bindE_Inl [simp]: "bindE (Inl e) f = Inl e"
  by (simp add: bindE_def)

section \<open>Hexadecimal texts\<close>


lemma hex_val_hex_digit: "d < 16 \<Longrightarrow> hex_val (hex_digit d) = Some d"
proof -
  assume "d < 16"
  then have "d \<in> set [0 ..< 16]" by simp
  then have "d \<in> {0,1,2,3,4,5,6,7,8,9,10,11,12,13,14,15}"
    by (simp add: upt_rec numeral_eq_Suc) 
  then show ?thesis
    by (auto simp: hex_val_def hex_digit_def)
qed

lemma parse_digits_append:
  "parse_digits acc (xs @ ys) = (case parse_digits acc xs of None \<Rightarrow> None | Some a \<Rightarrow> parse_digits a ys)"
  by (induction xs arbitrary: acc) (auto split: option.splits)

lemma parse_digits_to_hex: "parse_digits 0 (to_hex n) = Some n"
proof (induction n rule: to_hex.induct)
  case (1 n)
  show ?case
  proof (cases "n < 16")
    case True
    then show ?thesis by (subst to_hex.simps) (simp add: hex_val_hex_digit)
  next
    case False
    with 1 have "parse_digits 0 (to_hex (n div 16)) = Some (n div 16)" by simp
    with False show ?thesis
      by (subst to_hex.simps) (simp add: parse_digits_append hex_val_hex_digit)
  qed
qed

lemma parse_digits_zeros: "parse_digits 0 (replicate k (CHR ''0'') @ xs) = parse_digits 0 xs"
  by (induction k) (auto simp: hex_val_def)

lemma parse_digits_format_X: "parse_digits 0 (format_X w n) = Some n"
  by (simp add: format_X_def parse_digits_zeros parse_digits_to_hex)

lemma format_X_inj: "format_X w a = format_X w b \<Longrightarrow> a = b"
  by (metis parse_digits_format_X option.inject)

lemma to_hex_nonempty: "to_hex n \<noteq> []"
  by (subst to_hex.simps) simp

lemma format_X_nonempty: "format_X w n \<noteq> []"
  by (simp add: format_X_def to_hex_nonempty)

lemma py_int16_hex_id: "py_int16 (hex_id w n) = Some n"
  by (simp add: hex_id_def py_int16_def format_X_nonempty parse_digits_format_X)

lemma hex_id_inj [simp]: "hex_id w a = hex_id w b \<longleftrightarrow> a = b"
  by (auto simp: hex_id_def dest: format_X_inj)

lemma assign_sel [simp]:
  "DAQ_LIST_NUMBER (assign s d k e) = hex_id 4 d"
  "ODT_NUMBER (assign s d k e) = hex_id 2 k"
  "ODT_ENTRY_NUMBER (assign s d k e) = hex_id 2 e"
  "Length (assign s d k e) = Length s"
  "EventConfigured (assign s d k e) = EventConfigured s"
  "signal.truncate (assign s d k e) = s"
  by (simp_all add: assign_def signal.defs grouped_signal.defs)


lemma format_X_byte: "n < 256 \<Longrightarrow> format_X 2 n = [hex_digit (n div 16), hex_digit (n mod 16)]"
proof -
  assume n: "n < 256"
  show ?thesis
  proof (cases "n < 16")
    case True
    then show ?thesis
      by (simp add: format_X_def to_hex.simps[of n] hex_digit_def)
  next
    case False
    moreover from n have "n div 16 < 16" by simp
    ultimately show ?thesis
      by (simp add: format_X_def to_hex.simps[of n] to_hex.simps[of "n div 16"])
  qed
qed

lemma be_bytes_1: "be_bytes (Suc 0) n = [n mod 256]"
  by simp

lemma be_bytes_2: "be_bytes 2 n = [n div 256 mod 256, n mod 256]"
  by (simp add: numeral_2_eq_2)

lemma be_bytes_4:
  "be_bytes 4 n = [n div 256 div 256 div 256 mod 256, n div 256 div 256 mod 256, n div 256 mod 256, n mod 256]"
proof -
  have four: "(4::nat) = Suc (Suc (Suc (Suc 0)))" by simp
  show ?thesis by (subst four) simp
qed

lemma to_bytes_hex_1:
  "to_bytes_hex (Suc 0) ord n = (if 256 \<le> n then Inl OverflowError else Inr (format_X 2 n))"
  by (cases ord) (auto simp: to_bytes_hex_def)

lemma to_bytes_hex_2:
  "to_bytes_hex 2 ord n =
     (if 65536 \<le> n then Inl OverflowError
      else Inr (case ord of big \<Rightarrow> format_X 2 (n div 256 mod 256) @ format_X 2 (n mod 256)
                | little \<Rightarrow> format_X 2 (n mod 256) @ format_X 2 (n div 256 mod 256)))"
  by (cases ord) (auto simp: to_bytes_hex_def be_bytes_2)

lemma to_bytes_hex_4:
  "to_bytes_hex 4 ord n =
     (if 4294967296 \<le> n then Inl OverflowError
      else Inr (case ord of
                  big \<Rightarrow> format_X 2 (n div 256 div 256 div 256 mod 256) @ format_X 2 (n div 256 div 256 mod 256)
                          @ format_X 2 (n div 256 mod 256) @ format_X 2 (n mod 256)
                | little \<Rightarrow> format_X 2 (n mod 256) @ format_X 2 (n div 256 mod 256)
                          @ format_X 2 (n div 256 div 256 mod 256) @ format_X 2 (n div 256 div 256 div 256 mod 256)))"
  by (cases ord) (auto simp: to_bytes_hex_def be_bytes_4)

lemma ctr_hex_eq: "ctr_hex n = (if 256 \<le> n then Inl OverflowError else Inr (format_X 2 n))"
  by (simp add: ctr_hex_def to_bytes_hex_1)

lemma int16_simps:
  "int16 ''0x08'' = Inr 8"
  by (simp_all add: int16_def py_int16_def hex_val_def)

lemma replicate_3: "replicate 3 c = [c, c, c]"
  by (simp add: numeral_3_eq_3)

lemma hex_id_simps:
  "hex_id 4 0 = ''0x0000''" "hex_id 2 0 = ''0x00''" "hex_id 2 1 = ''0x01''"
  by (simp_all add: hex_id_def format_X_def to_hex.simps hex_digit_def replicate_3)

section \<open>Evaluation on sample inputs\<close>

lemma sample_sel [simp]:
  "EventConfigured (sample_signal nm ev ad len) = ev"
  "Length (sample_signal nm ev ad len) = len"
  "ECU_ADDRESS (sample_signal nm ev ad len) = ad"
  "Name (sample_signal nm ev ad len) = nm"
  "Signage (sample_signal nm ev ad len) = ''unsigned''"
  by (simp_all add: sample_signal_def)

lemma sample_params_sel [simp]:
  "MAX_CTO (sample_params cto dto order dls) = cto"
  "MAX_DTO (sample_params cto dto order dls) = dto"
  "BYTE_ORDER (sample_params cto dto order dls) = order"
  "BYTES_ONLY (sample_params cto dto order dls) = False"
  "DAQ_LISTS (sample_params cto dto order dls) = dls"
  by (simp_all add: sample_params_def)

lemma int16_08 [simp]: "int16 ''0x08'' = Inr 8"
  by (simp add: int16_def py_int16_def hex_val_def)

lemma bindE_id [simp]: "bindE m Inr = m"
  by (cases m) simp_all

lemma int16_simps2 [simp]:
  "int16 ''0x7e8'' = Inr 2024"
  "int16 ''0x0001'' = Inr 1"
  "int16 ''3'' = Inr 3"
  "int16 ''0x40001000'' = Inr 1073745920"
  "int16 ''0x40001002'' = Inr 1073745922"
  by (simp_all add: int16_def py_int16_def hex_val_def)

lemma int16_hex_id [simp]: "int16 (hex_id w n) = Inr n"
  by (simp add: int16_def py_int16_hex_id)

lemma sample_params_sel2 [simp]:
  "CAN_ID_DTO (sample_params cto dto order dls) = ''0x7e8''"
  "CAN_ID_SLAVE_EXTENDED (sample_params cto dto order dls) = False"
  "ECU_STATION_ADDRESS (sample_params cto dto order dls) = ''0x0001''"
  by (simp_all add: sample_params_def)

lemma assign_sel2 [simp]:
  "ECU_ADDRESS (assign s d k e) = ECU_ADDRESS s"
  "Name (assign s d k e) = Name s"
  "Signage (assign s d k e) = Signage s"
  "Scale (assign s d k e) = Scale s"
  "Offset (assign s d k e) = Offset s"
  "LowerLimit (assign s d k e) = LowerLimit s"
  "UpperLimit (assign s d k e) = UpperLimit s"
  "Unit (assign s d k e) = Unit s"
  by (simp_all add: assign_def signal.defs grouped_signal.defs)

lemma sorted_ids_single: "sorted_ids key [a] = [key a]"
  by (simp add: sorted_ids_def)

lemma sorted_ids_same: "key a = key b \<Longrightarrow> sorted_ids key [a, b] = [key a]"
  by (simp add: sorted_ids_def)

lemma to_bytes_hex_one:
  "to_bytes_hex 1 ord n = (if 256 \<le> n then Inl OverflowError else Inr (format_X 2 n))"
  using to_bytes_hex_1[of ord n] by simp

section \<open>Grouping\<close>

subsection \<open>Buckets of event channels\<close>

lemma first_seen_snoc:
  "first_seen (xs @ [x]) = (if x \<in> set xs then first_seen xs else first_seen xs @ [x])"
  by (simp add: first_seen_def)

lemma first_seen_set [simp]: "set (first_seen xs) = set xs"
  by (simp add: first_seen_def)

lemma first_seen_distinct [simp]: "distinct (first_seen xs)"
  by (simp add: first_seen_def)

lemma dd_append_map:
  "distinct keys \<Longrightarrow>
   dd_append (map (\<lambda>k. (k, f k)) keys) k v =
     (if k \<in> set keys then map (\<lambda>k'. (k', if k' = k then f k' @ [v] else f k')) keys
      else map (\<lambda>k. (k, f k)) keys @ [(k, [v])])"
  by (induction keys) auto

lemma bucket_signals_snoc:
  "bucket_signals (xs @ [s]) = dd_append (bucket_signals xs) (EventConfigured s) s"
  by (simp add: bucket_signals_def)

lemma bucket_signals_eq:
  "bucket_signals signals =
     map (\<lambda>k. (k, filter (\<lambda>s. EventConfigured s = k) signals))
       (first_seen (map EventConfigured signals))"
proof (induction signals rule: rev_induct)
  case Nil
  show ?case by (simp add: bucket_signals_def first_seen_def)
next
  case (snoc s xs)
  show ?case
    by (simp add: bucket_signals_snoc snoc dd_append_map first_seen_snoc)
       (auto simp: filter_empty_conv image_iff)
qed



subsection \<open>The ODT loop\<close>

lemma assign_odts_truncate [simp]:
  "map signal.truncate (assign_odts mp dc oc sz es sigs) = sigs"
  by (induction sigs arbitrary: oc sz es) (simp_all add: Let_def)

lemma assign_odts_length [simp]:
  "length (assign_odts mp dc oc sz es sigs) = length sigs"
  by (induction sigs arbitrary: oc sz es) (simp_all add: Let_def)

lemma assign_odts_daq:
  "g \<in> set (assign_odts mp dc oc sz es sigs) \<Longrightarrow> DAQ_LIST_NUMBER g = hex_id 4 dc"
  by (induction sigs arbitrary: oc sz es) (auto simp: Let_def split: if_splits)

lemma assign_odts_odt_ge:
  "g \<in> set (assign_odts mp dc oc sz es sigs) \<Longrightarrow> \<exists>k\<ge>oc. ODT_NUMBER g = hex_id 2 k"
proof (induction sigs arbitrary: oc sz es)
  case Nil
  then show ?case by simp
next
  case (Cons s rest)
  show ?case
  proof (cases "int sz + int (Length s) > mp")
    case True
    with Cons.prems have "g = assign s dc (oc + 1) 0 \<or>
        g \<in> set (assign_odts mp dc (oc + 1) (Length s) [assign s dc (oc + 1) 0] rest)"
      by (simp add: Let_def)
    then show ?thesis
    proof
      assume "g = assign s dc (oc + 1) 0"
      then have "ODT_NUMBER g = hex_id 2 (oc + 1)" by simp
      then show ?thesis by (intro exI[of _ "oc + 1"]) simp
    next
      assume "g \<in> set (assign_odts mp dc (oc + 1) (Length s) [assign s dc (oc + 1) 0] rest)"
      from Cons.IH[OF this] obtain k where "k \<ge> oc + 1" "ODT_NUMBER g = hex_id 2 k" by blast
      then show ?thesis by (intro exI[of _ k]) simp
    qed
  next
    case False
    with Cons.prems have "g = assign s dc oc (length es) \<or>
        g \<in> set (assign_odts mp dc oc (sz + Length s) (es @ [assign s dc oc (length es)]) rest)"
      by (simp add: Let_def)
    then show ?thesis
    proof
      assume "g = assign s dc oc (length es)"
      then show ?thesis by (intro exI[of _ oc]) simp
    next
      assume "g \<in> set (assign_odts mp dc oc (sz + Length s) (es @ [assign s dc oc (length es)]) rest)"
      from Cons.IH[OF this] show ?thesis .
    qed
  qed
qed

lemma assign_odts_filter_lower:
  "filter (\<lambda>g. ODT_NUMBER g = hex_id 2 oc) (assign_odts mp dc (Suc oc) sz es sigs) = []"
  by (auto simp: filter_empty_conv dest!: assign_odts_odt_ge)

lemma assign_odts_sum:
  assumes "\<forall>s\<in>set sigs. int (Length s) \<le> mp" and "int sz \<le> mp"
  shows "int (sum_list (map Length (filter (\<lambda>g. ODT_NUMBER g = od) (assign_odts mp dc oc sz es sigs))))
           + (if od = hex_id 2 oc then int sz else 0) \<le> mp"
  using assms
proof (induction sigs arbitrary: oc sz es)
  case Nil
  then show ?case by simp
next
  case (Cons s rest)
  have len: "int (Length s) \<le> mp" and rest: "\<forall>s\<in>set rest. int (Length s) \<le> mp"
    using Cons.prems by simp_all
  show ?case
  proof (cases "int sz + int (Length s) > mp")
    case True
    note IH = Cons.IH[OF rest len, of "oc + 1" "[assign s dc (oc + 1) 0]"]
    show ?thesis
    proof (cases "od = hex_id 2 oc")
      case od: True
      then show ?thesis using True Cons.prems(2)
        by (simp add: Let_def assign_odts_filter_lower)
    next
      case False
      with IH True show ?thesis by (auto simp: Let_def)
    qed
  next
    case False
    then have sz': "int (sz + Length s) \<le> mp" by simp
    note IH = Cons.IH[OF rest sz', of oc "es @ [assign s dc oc (length es)]"]
    with False show ?thesis by (auto simp: Let_def)
  qed
qed

lemma assign_odts_entries:
  "map ODT_ENTRY_NUMBER (filter (\<lambda>g. ODT_NUMBER g = od) (assign_odts mp dc oc sz es sigs)) =
     map (hex_id 2)
       [(if od = hex_id 2 oc then length es else 0) ..<
        (if od = hex_id 2 oc then length es else 0)
          + length (filter (\<lambda>g. ODT_NUMBER g = od) (assign_odts mp dc oc sz es sigs))]"
proof (induction sigs arbitrary: oc sz es)
  case Nil
  then show ?case by simp
next
  case (Cons s rest)
  show ?case
  proof (cases "int sz + int (Length s) > mp")
    case True
    define g where "g = assign s dc (Suc oc) 0"
    define R where "R = assign_odts mp dc (Suc oc) (Length s) [g] rest"
    define n where "n = length (filter (\<lambda>g. ODT_NUMBER g = od) R)"
    have unfold: "assign_odts mp dc oc sz es (s # rest) = g # R"
      using True by (simp add: Let_def g_def R_def)
    have IH: "map ODT_ENTRY_NUMBER (filter (\<lambda>g. ODT_NUMBER g = od) R) =
        map (hex_id 2) [(if od = hex_id 2 (Suc oc) then 1 else 0) ..<
                        (if od = hex_id 2 (Suc oc) then 1 else 0) + n]"
      using Cons.IH[of "Suc oc" "Length s" "[g]"] by (simp add: R_def n_def)
    have g: "ODT_NUMBER g = hex_id 2 (Suc oc)" "ODT_ENTRY_NUMBER g = hex_id 2 0"
      by (simp_all add: g_def)
    consider "od = hex_id 2 oc" | "od = hex_id 2 (Suc oc)" | "od \<noteq> hex_id 2 oc" "od \<noteq> hex_id 2 (Suc oc)"
      by blast
    then show ?thesis
    proof cases
      case 1
      then have "filter (\<lambda>g. ODT_NUMBER g = od) R = []"
        by (simp add: R_def assign_odts_filter_lower)
      with 1 show ?thesis by (simp add: unfold g del: assign_odts.simps)
    next
      case 2
      then have "od \<noteq> hex_id 2 oc" by simp
      with 2 IH show ?thesis
        by (simp add: unfold g n_def upt_conv_Cons del: assign_odts.simps upt_Suc)
    next
      case 3
      with IH show ?thesis by (simp add: unfold g n_def del: assign_odts.simps upt_Suc)
    qed
  next
    case False
    define g where "g = assign s dc oc (length es)"
    define R where "R = assign_odts mp dc oc (sz + Length s) (es @ [g]) rest"
    define n where "n = length (filter (\<lambda>g. ODT_NUMBER g = od) R)"
    have unfold: "assign_odts mp dc oc sz es (s # rest) = g # R"
      using False by (simp add: Let_def g_def R_def)
    have IH: "map ODT_ENTRY_NUMBER (filter (\<lambda>g. ODT_NUMBER g = od) R) =
        map (hex_id 2) [(if od = hex_id 2 oc then Suc (length es) else 0) ..<
                        (if od = hex_id 2 oc then Suc (length es) else 0) + n]"
      using Cons.IH[of oc "sz + Length s" "es @ [g]"] by (simp add: R_def n_def)
    have g: "ODT_NUMBER g = hex_id 2 oc" "ODT_ENTRY_NUMBER g = hex_id 2 (length es)"
      by (simp_all add: g_def)
    show ?thesis
    proof (cases "od = hex_id 2 oc")
      case True
      with IH show ?thesis by (simp add: unfold g n_def upt_conv_Cons del: assign_odts.simps upt_Suc)
    next
      case False
      with IH show ?thesis by (simp add: unfold g n_def del: assign_odts.simps upt_Suc)
    qed
  qed
qed

subsection \<open>The DAQ list loop\<close>

lemma assign_daqs_daq_ge:
  "g \<in> set (assign_daqs mp dc bs) \<Longrightarrow> \<exists>k\<ge>dc. k < dc + length bs \<and> DAQ_LIST_NUMBER g = hex_id 4 k"
proof (induction bs arbitrary: dc)
  case Nil
  then show ?case by simp
next
  case (Cons b bs)
  obtain ev sigs where b: "b = (ev, sigs)" by (cases b)
  from Cons.prems b have "g \<in> set (assign_odts mp dc 0 0 [] sigs) \<or> g \<in> set (assign_daqs mp (dc + 1) bs)"
    by simp
  then show ?case
  proof
    assume "g \<in> set (assign_odts mp dc 0 0 [] sigs)"
    then have "DAQ_LIST_NUMBER g = hex_id 4 dc" by (rule assign_odts_daq)
    then show ?thesis by (intro exI[of _ dc]) simp
  next
    assume "g \<in> set (assign_daqs mp (dc + 1) bs)"
    from Cons.IH[OF this] obtain k where "k \<ge> dc + 1" "k < dc + 1 + length bs" "DAQ_LIST_NUMBER g = hex_id 4 k"
      by blast
    then show ?thesis by (intro exI[of _ k]) simp
  qed
qed

lemma assign_daqs_filter:
  "filter (\<lambda>g. DAQ_LIST_NUMBER g = hex_id 4 j \<and> P g) (assign_daqs mp dc bs) =
     (if dc \<le> j \<and> j < dc + length bs
      then filter P (assign_odts mp j 0 0 [] (snd (bs ! (j - dc)))) else [])"
proof (induction bs arbitrary: dc)
  case Nil
  then show ?case by auto
next
  case (Cons b bs)
  obtain ev sigs where b: "b = (ev, sigs)" by (cases b)
  have A: "filter (\<lambda>g. DAQ_LIST_NUMBER g = hex_id 4 j \<and> P g) (assign_odts mp dc 0 0 [] sigs) =
        (if j = dc then filter P (assign_odts mp dc 0 0 [] sigs) else [])"
    by (auto simp: filter_empty_conv assign_odts_daq intro!: filter_cong)
  note IH = Cons.IH[of "Suc dc"]
  show ?case
  proof (cases "j = dc")
    case True
    with IH A show ?thesis by (simp add: b)
  next
    case False
    then have "(j - dc) = Suc (j - Suc dc) \<or> j < dc" by arith
    with False show ?thesis by (auto simp: b A IH)
  qed
qed

lemma assign_daqs_filter_other:
  "\<forall>j. d \<noteq> hex_id 4 j \<Longrightarrow> filter (\<lambda>g. DAQ_LIST_NUMBER g = d \<and> P g) (assign_daqs mp dc bs) = []"
  by (auto simp: filter_empty_conv dest!: assign_daqs_daq_ge)


subsection \<open>Properties of the grouping\<close>

lemma group_signals_Inr:
  assumes "group_signals signals params proto = Inr out"
  shows "signals \<noteq> []"
    and "\<exists>dto. int16 (MAX_DTO params) = Inr dto \<and>
           out = assign_daqs (int (min dto 64) - 1) 0 (bucket_signals signals)"
  using assms
  by (cases proto; auto simp: group_signals_def bindE_Inr_iff Let_def split: if_splits option.splits)+

lemma assign_daqs_truncate: "map signal.truncate (assign_daqs mp dc bs) = concat (map snd bs)"
  by (induction bs arbitrary: dc) auto

lemma mset_concat_filter:
  "distinct keys \<Longrightarrow>
   mset (concat (map (\<lambda>k. filter (\<lambda>s. f s = k) xs) keys)) = mset (filter (\<lambda>s. f s \<in> set keys) xs)"
proof (induction keys)
  case Nil
  then show ?case by simp
next
  case (Cons k ks)
  have "mset (filter (\<lambda>s. f s = k) xs) + mset (filter (\<lambda>s. f s \<in> set ks) xs)
        = mset (filter (\<lambda>s. f s = k \<or> f s \<in> set ks) xs)"
    using Cons.prems by (induction xs) auto
  with Cons show ?case by simp
qed

lemma bucket_signals_concat: "mset (concat (map snd (bucket_signals signals))) = mset signals"
proof -
  have "map snd (bucket_signals signals) =
      map (\<lambda>k. filter (\<lambda>s. EventConfigured s = k) signals) (first_seen (map EventConfigured signals))"
    by (simp add: bucket_signals_eq comp_def)
  then show ?thesis
    by (simp add: mset_concat_filter)
qed

lemma bucket_signals_members:
  "(k, vs) \<in> set (bucket_signals signals) \<Longrightarrow> set vs \<subseteq> set signals"
  by (auto simp: bucket_signals_eq)

lemma assign_daqs_odt_cases:
  obtains (none) "odt_members d od (assign_daqs mp 0 bs) = []"
  | (some) j where "j < length bs" "d = hex_id 4 j"
      "odt_members d od (assign_daqs mp 0 bs) =
         filter (\<lambda>g. ODT_NUMBER g = od) (assign_odts mp j 0 0 [] (snd (bs ! j)))"
proof (cases "\<exists>j. d = hex_id 4 j")
  case False
  then have "odt_members d od (assign_daqs mp 0 bs) = []"
    unfolding odt_members_def by (intro assign_daqs_filter_other) simp
  then show ?thesis by (rule none)
next
  case True
  then obtain j where j: "d = hex_id 4 j" by blast
  show ?thesis
  proof (cases "j < length bs")
    case True
    with j show ?thesis
      by (intro some[of j]) (simp_all add: odt_members_def assign_daqs_filter)
  next
    case False
    with j show ?thesis
      by (intro none) (simp add: odt_members_def assign_daqs_filter)
  qed
qed

lemma group_example:
  "group_signals [sA, sC, sB] (sample_params ''0x08'' ''0x08'' little None) xcp
     = Inr [assign sA 0 0 0, assign sB 0 0 1, assign sC 1 0 0]"
  by (simp add: group_signals_def bucket_signals_def sA_def sB_def sC_def)

text \<open>
  Claim C2, as amended. The claim states the bound for every non-empty input. The loop
  opens a new ODT for a signal that does not fit into the current one, but it never
  compares the signal with the payload itself: the signal is appended to the ODT just
  opened whatever its length. The validation of \<^verbatim>\<open>filter_a2l_signals\<close> removes a signal of
  length 8 only when \<open>max_dto\<close> is 8, so with \<^verbatim>\<open>MAX_DTO\<close> \<^verbatim>\<open>0x04\<close> a signal of 4 bytes is
  kept, and \<^verbatim>\<open>group_signals\<close> places it in an ODT of 4 bytes, more than \<open>max_dto - 1 = 3\<close>.
  The amended claim adds one hypothesis: every signal of the input is at most
  \<open>max_dto - 1\<close> bytes long, with \<open>max_dto = min(MAX_DTO, 64)\<close>. Then, for every DAQ list id
  \<open>d\<close> and ODT id \<open>od\<close>, the summed length of the signals of the grouping that carry
  these two ids is at most \<open>max_dto - 1\<close>. The second part is the step of the loop: with
  running total \<open>sz\<close> and current entries \<open>es\<close>, the signal \<open>s\<close> is appended to the current
  ODT \<open>oc\<close>, with entry number \<open>length es\<close>, exactly when \<open>sz + Length s\<close> does not exceed
  \<open>max_dto - 1\<close>; otherwise ODT \<open>oc + 1\<close> is opened, the signal is its entry 0, and the
  running total restarts from 0, so that it is \<open>Length s\<close> after the signal.
\<close>

theorem group_signals_packing_bound:
  assumes "group_signals signals params proto = Inr out"
      and "int16 (MAX_DTO params) = Inr dto"
      and "\<forall>s\<in>set signals. int (Length s) \<le> int (min dto 64) - 1"
  shows "int (odt_bytes d od out) \<le> int (min dto 64) - 1
       \<and> assign_odts (int (min dto 64) - 1) dc oc sz es (s # rest) =
           (if int sz + int (Length s) \<le> int (min dto 64) - 1
            then assign s dc oc (length es)
                   # assign_odts (int (min dto 64) - 1) dc oc (sz + Length s)
                       (es @ [assign s dc oc (length es)]) rest
            else assign s dc (oc + 1) 0
                   # assign_odts (int (min dto 64) - 1) dc (oc + 1) (0 + Length s)
                       ([] @ [assign s dc (oc + 1) 0]) rest)"
proof -
  define mp where "mp = int (min dto 64) - 1"
  define bs where "bs = bucket_signals signals"
  from group_signals_Inr[OF assms(1)] assms(2)
  have ne: "signals \<noteq> []" and out: "out = assign_daqs mp 0 bs"
    by (auto simp: mp_def bs_def)
  from ne assms(3) have mp0: "0 \<le> mp"
    by (cases signals) (auto simp: mp_def)
  have bound: "int (odt_bytes d od out) \<le> int (min dto 64) - 1"
  proof (cases rule: assign_daqs_odt_cases[of d od mp bs])
    case none
    with mp0 show ?thesis by (simp add: odt_bytes_def out mp_def)
  next
    case (some j)
    have "(fst (bs ! j), snd (bs ! j)) \<in> set bs" using some(1) by simp
    then have "set (snd (bs ! j)) \<subseteq> set signals"
      unfolding bs_def by (rule bucket_signals_members)
    with assms(3) have fits: "\<forall>s\<in>set (snd (bs ! j)). int (Length s) \<le> mp"
      by (auto simp: mp_def)
    from assign_odts_sum[OF fits, of 0 od j 0 "[]"] mp0
    have "int (sum_list (map Length (filter (\<lambda>g. ODT_NUMBER g = od)
              (assign_odts mp j 0 0 [] (snd (bs ! j)))))) \<le> mp"
      by (simp split: if_splits)
    with some(3) show ?thesis by (simp add: odt_bytes_def out mp_def)
  qed
  have step: "assign_odts mp dc oc sz es (s # rest) =
           (if int sz + int (Length s) \<le> mp
            then assign s dc oc (length es)
                   # assign_odts mp dc oc (sz + Length s) (es @ [assign s dc oc (length es)]) rest
            else assign s dc (oc + 1) 0
                   # assign_odts mp dc (oc + 1) (0 + Length s) ([] @ [assign s dc (oc + 1) 0]) rest)"
    by (simp add: Let_def)
  from bound step show ?thesis unfolding mp_def by (rule conjI)
qed

theorem group_signals_packing_bound_witness:
  "group_signals [sA, sC, sB] (sample_params ''0x08'' ''0x08'' little None) xcp
     = Inr [assign sA 0 0 0, assign sB 0 0 1, assign sC 1 0 0]
   \<and> int16 (MAX_DTO (sample_params ''0x08'' ''0x08'' little None)) = Inr 8
   \<and> int (Length sA) \<le> 7 \<and> int (Length sB) \<le> 7 \<and> int (Length sC) \<le> 7
   \<and> int (odt_bytes (hex_id 4 0) (hex_id 2 0) [assign sA 0 0 0, assign sB 0 0 1, assign sC 1 0 0]) \<le> 7"
proof -
  have p: "int16 (MAX_DTO (sample_params ''0x08'' ''0x08'' little None)) = Inr 8" by simp
  have fits: "\<forall>s\<in>set [sA, sC, sB]. int (Length s) \<le> int (min 8 64) - 1"
    by (simp add: sA_def sB_def sC_def)
  from group_signals_packing_bound[OF group_example p fits, of "hex_id 4 0" "hex_id 2 0", THEN conjunct1]
    fits
  show ?thesis
    by (simp add: group_example)
qed

theorem group_signals_packing_bound_counterexample:
  "int16 (MAX_DTO (sample_params ''0x08'' ''0x04'' little None)) = Inr 4
   \<and> filter_keeps (min 4 64) sD
   \<and> group_signals [sD] (sample_params ''0x08'' ''0x04'' little None) xcp = Inr [assign sD 0 1 0]
   \<and> odt_bytes (hex_id 4 0) (hex_id 2 1) [assign sD 0 1 0] = 4
   \<and> \<not> int (odt_bytes (hex_id 4 0) (hex_id 2 1) [assign sD 0 1 0]) \<le> int (min 4 64) - 1"
  by (simp add: group_signals_def bucket_signals_def sD_def odt_bytes_def odt_members_def
        filter_keeps_def int16_def py_int16_def hex_val_def)

text \<open>
  Claim C9. The event channels become DAQ lists in the order in which they are first seen
  in the input, and the output restricted to the \<open>k\<close>-th DAQ list is, without the three
  assigned keys, the input restricted to the \<open>k\<close>-th channel, in the same order. Every
  output signal lies in one of these DAQ lists.
\<close>

theorem group_signals_order_preserved:
  assumes "group_signals signals params proto = Inr out"
  shows "map fst (bucket_signals signals) = first_seen (map EventConfigured signals)
       \<and> (\<forall>k < length (first_seen (map EventConfigured signals)).
            map signal.truncate (filter (\<lambda>g. DAQ_LIST_NUMBER g = hex_id 4 k) out)
              = filter (\<lambda>s. EventConfigured s = first_seen (map EventConfigured signals) ! k) signals)
       \<and> (\<forall>g \<in> set out. \<exists>k < length (first_seen (map EventConfigured signals)).
            DAQ_LIST_NUMBER g = hex_id 4 k)"
proof -
  define keys where "keys = first_seen (map EventConfigured signals)"
  from group_signals_Inr(2)[OF assms] obtain mp where
    out: "out = assign_daqs mp 0 (bucket_signals signals)" by blast
  have keys: "map fst (bucket_signals signals) = keys"
    by (simp add: bucket_signals_eq keys_def comp_def)
  have len: "length (bucket_signals signals) = length keys"
    by (simp add: bucket_signals_eq keys_def)
  have part: "map signal.truncate (filter (\<lambda>g. DAQ_LIST_NUMBER g = hex_id 4 k) out)
              = filter (\<lambda>s. EventConfigured s = keys ! k) signals" if "k < length keys" for k
  proof -
    have "filter (\<lambda>g. DAQ_LIST_NUMBER g = hex_id 4 k \<and> True) out =
          filter (\<lambda>g. True) (assign_odts mp k 0 0 [] (snd (bucket_signals signals ! k)))"
      unfolding out by (subst assign_daqs_filter) (simp add: len that)
    moreover have "snd (bucket_signals signals ! k) = filter (\<lambda>s. EventConfigured s = keys ! k) signals"
      using that by (simp add: bucket_signals_eq keys_def)
    ultimately show ?thesis by simp
  qed
  have range: "\<exists>k < length keys. DAQ_LIST_NUMBER g = hex_id 4 k" if "g \<in> set out" for g
    using assign_daqs_daq_ge[of g mp 0 "bucket_signals signals"] that
    by (auto simp: out len)
  from keys part range show ?thesis unfolding keys_def by blast
qed

theorem group_signals_order_preserved_witness:
  "group_signals [sA, sC, sB] (sample_params ''0x08'' ''0x08'' little None) xcp
     = Inr [assign sA 0 0 0, assign sB 0 0 1, assign sC 1 0 0]
   \<and> map fst (bucket_signals [sA, sC, sB]) = [''3'', ''1'']
   \<and> map signal.truncate (filter (\<lambda>g. DAQ_LIST_NUMBER g = hex_id 4 0)
          [assign sA 0 0 0, assign sB 0 0 1, assign sC 1 0 0]) = [sA, sB]
   \<and> map signal.truncate (filter (\<lambda>g. DAQ_LIST_NUMBER g = hex_id 4 1)
          [assign sA 0 0 0, assign sB 0 0 1, assign sC 1 0 0]) = [sC]"
proof -
  have keys: "first_seen (map EventConfigured [sA, sC, sB]) = [''3'', ''1'']"
    by (simp add: first_seen_def sA_def sB_def sC_def)
  note T = group_signals_order_preserved[OF group_example, unfolded keys]
  from T have buckets: "map fst (bucket_signals [sA, sC, sB]) = [''3'', ''1'']"
    by blast
  from T have parts: "\<forall>k<length [''3'', ''1''].
      map signal.truncate (filter (\<lambda>g. DAQ_LIST_NUMBER g = hex_id 4 k)
          [assign sA 0 0 0, assign sB 0 0 1, assign sC 1 0 0])
        = filter (\<lambda>s. EventConfigured s = [''3'', ''1''] ! k) [sA, sC, sB]"
    by blast
  from parts[rule_format, of 0] parts[rule_format, of 1]
  have "map signal.truncate (filter (\<lambda>g. DAQ_LIST_NUMBER g = hex_id 4 0)
          [assign sA 0 0 0, assign sB 0 0 1, assign sC 1 0 0]) = [sA, sB]"
    and "map signal.truncate (filter (\<lambda>g. DAQ_LIST_NUMBER g = hex_id 4 1)
          [assign sA 0 0 0, assign sB 0 0 1, assign sC 1 0 0]) = [sC]"
    by (simp_all add: sA_def sB_def sC_def)
  with group_example buckets show ?thesis by blast
qed

text \<open>
  Claim C10. The output, without the three assigned keys, is a permutation of the input,
  and the entry numbers of the members of every ODT are \<^verbatim>\<open>0x00\<close>, \<^verbatim>\<open>0x01\<close>, ... in
  output order.
\<close>

theorem group_signals_permutation:
  assumes "group_signals signals params proto = Inr out"
  shows "mset (map signal.truncate out) = mset signals
       \<and> map ODT_ENTRY_NUMBER (odt_members d od out)
           = map (hex_id 2) [0 ..< length (odt_members d od out)]"
proof -
  from group_signals_Inr(2)[OF assms] obtain mp where
    out: "out = assign_daqs mp 0 (bucket_signals signals)" by blast
  have perm: "mset (map signal.truncate out) = mset signals"
    by (simp add: out assign_daqs_truncate bucket_signals_concat)
  have entries: "map ODT_ENTRY_NUMBER (odt_members d od out)
           = map (hex_id 2) [0 ..< length (odt_members d od out)]"
  proof (cases rule: assign_daqs_odt_cases[of d od mp "bucket_signals signals"])
    case none
    then show ?thesis by (simp add: out)
  next
    case (some j)
    show ?thesis
      unfolding out some(3)
      using assign_odts_entries[of od mp j 0 0 "[]" "snd (bucket_signals signals ! j)"]
      by simp
  qed
  from perm entries show ?thesis by blast
qed

theorem group_signals_permutation_witness:
  "group_signals [sA, sC, sB] (sample_params ''0x08'' ''0x08'' little None) xcp
     = Inr [assign sA 0 0 0, assign sB 0 0 1, assign sC 1 0 0]
   \<and> mset (map signal.truncate [assign sA 0 0 0, assign sB 0 0 1, assign sC 1 0 0]) = mset [sA, sC, sB]
   \<and> map ODT_ENTRY_NUMBER (odt_members (hex_id 4 0) (hex_id 2 0) [assign sA 0 0 0, assign sB 0 0 1, assign sC 1 0 0])
       = [hex_id 2 0, hex_id 2 1]"
proof -
  have m: "odt_members (hex_id 4 0) (hex_id 2 0) [assign sA 0 0 0, assign sB 0 0 1, assign sC 1 0 0]
           = [assign sA 0 0 0, assign sB 0 0 1]"
    by (simp add: odt_members_def)
  have u: "map (hex_id 2) [0 ..< length [assign sA 0 0 0, assign sB 0 0 1]] = [hex_id 2 0, hex_id 2 1]"
    by (simp add: upt_rec)
  from group_signals_permutation[OF group_example, of "hex_id 4 0" "hex_id 2 0"]
  have "mset (map signal.truncate [assign sA 0 0 0, assign sB 0 0 1, assign sC 1 0 0]) = mset [sA, sC, sB]"
    and "map ODT_ENTRY_NUMBER (odt_members (hex_id 4 0) (hex_id 2 0) [assign sA 0 0 0, assign sB 0 0 1, assign sC 1 0 0])
       = [hex_id 2 0, hex_id 2 1]"
    unfolding m u by blast+
  with group_example show ?thesis by blast
qed

section \<open>The CCP command counter\<close>

lemma counted_from_Nil [simp]: "counted_from c []"
  by (simp add: counted_from_def)

lemma counted_from_Cons:
  "counted_from c (f # fs) \<longleftrightarrow> ctr_hex c = Inr (counter_byte f) \<and> counted_from (Suc c) fs"
  by (simp add: counted_from_def All_less_Suc2)

lemma counted_from_append:
  "counted_from c (xs @ ys) \<longleftrightarrow> counted_from c xs \<and> counted_from (c + length xs) ys"
  by (induction xs arbitrary: c) (simp_all add: counted_from_Cons)

lemma ctr_hex_Inr: "ctr_hex n = Inr c \<Longrightarrow> n < 256 \<and> c = format_X 2 n \<and> length c = 2"
  by (auto simp: ctr_hex_eq format_X_byte split: if_splits)

lemma ctr_hex_Inr_iff: "ctr_hex n = Inr c \<longleftrightarrow> n < 256 \<and> c = format_X 2 n"
  by (auto simp: ctr_hex_eq)

lemma length_format_X_byte [simp]: "n < 256 \<Longrightarrow> length (format_X 2 n) = 2"
  by (simp add: format_X_byte)

lemma counter_byte_frame:
  "length c = 2 \<Longrightarrow> counter_byte \<lparr>frame_name = nm, DATA = a # b # c @ rest\<rparr> = c"
  by (simp add: counter_byte_def)

lemma steps_counterD:
  "steps_counter ctr body \<Longrightarrow> body st x = Inr (st', fs) \<Longrightarrow>
     ctr st' = ctr st + length fs \<and> counted_from (ctr st) fs"
  by (simp add: steps_counter_def)

lemma for_state_counter:
  assumes "steps_counter ctr body"
  shows "steps_counter ctr (\<lambda>st xs. for_state body st xs)"
  unfolding steps_counter_def
proof (intro allI impI)
  fix st xs st' fs
  assume "for_state body st xs = Inr (st', fs)"
  then show "ctr st' = ctr st + length fs \<and> counted_from (ctr st) fs"
  proof (induction xs arbitrary: st st' fs)
    case Nil
    then show ?case by simp
  next
    case (Cons x xs)
    from Cons.prems obtain st1 fs1 st2 fs2 where
      b: "body st x = Inr (st1, fs1)" and r: "for_state body st1 xs = Inr (st2, fs2)"
      and e: "st' = st2" "fs = fs1 @ fs2"
      by (auto simp: bindE_Inr_iff)
    from steps_counterD[OF assms b] Cons.IH[OF r] e
    show ?case by (simp add: counted_from_append)
  qed
qed

lemma ccp_entry_counter: "steps_counter id (ccp_entry bo dn odn)"
  unfolding steps_counter_def
  by (auto simp: ccp_entry_def bindE_Inr_iff Let_def counted_from_Cons counter_byte_frame
      ctr_hex_Inr_iff)

lemma ccp_chunk_counter: "steps_counter fst (ccp_chunk bo dn odn s)"
  unfolding steps_counter_def
  by (auto simp: ccp_chunk_def bindE_Inr_iff Let_def counted_from_Cons counter_byte_frame
      ctr_hex_Inr_iff)

lemma ccp_entry_bytes_counter: "steps_counter fst (ccp_entry_bytes bo dn odn)"
  unfolding ccp_entry_bytes_def steps_counter_def
  using for_state_counter[OF ccp_chunk_counter, unfolded steps_counter_def]
  by blast

lemma ccp_odt_counter: "steps_counter id (ccp_odt bo bytes_only dn daq_signals)"
  unfolding steps_counter_def
proof (intro allI impI)
  fix st x st' fs
  assume H: "ccp_odt bo bytes_only dn daq_signals st x = Inr (st', fs)"
  show "id st' = id st + length fs \<and> counted_from (id st) fs"
  proof (cases bytes_only)
    case False
    with H obtain odn where
      "for_state (ccp_entry bo dn odn) st (filter (\<lambda>s. ODT_NUMBER s = x) daq_signals) = Inr (st', fs)"
      by (auto simp: ccp_odt_def bindE_Inr_iff Let_def)
    from steps_counterD[OF for_state_counter[OF ccp_entry_counter] this]
    show ?thesis .
  next
    case True
    with H obtain odn st2 where
      "for_state (ccp_entry_bytes bo dn odn) (st, 0) (filter (\<lambda>s. ODT_NUMBER s = x) daq_signals) = Inr (st2, fs)"
      and "st' = fst st2"
      by (auto simp: ccp_odt_def bindE_Inr_iff Let_def)
    from steps_counterD[OF for_state_counter[OF ccp_entry_bytes_counter] this(1)] this(2)
    show ?thesis by simp
  qed
qed

lemma ccp_daq_list_counter: "steps_counter id (ccp_daq_list bo bytes_only can sg)"
  unfolding steps_counter_def
proof (intro allI impI)
  fix st x st' fs
  assume H: "ccp_daq_list bo bytes_only can sg st x = Inr (st', fs)"
  then obtain dn c dto fs' where
    c: "ctr_hex st = Inr c" and
    loop: "for_state (ccp_odt bo bytes_only dn (filter (\<lambda>s. DAQ_LIST_NUMBER s = x) sg)) (st + 1)
             (sorted_ids ODT_NUMBER (filter (\<lambda>s. DAQ_LIST_NUMBER s = x) sg)) = Inr (st', fs')"
    and fs: "fs = \<lparr>frame_name = ''GET_DAQ_SIZE_'' @ dn, DATA = ''14'' @ c @ dn @ ''AA'' @ dto\<rparr> # fs'"
    by (auto simp: ccp_daq_list_def bindE_Inr_iff Let_def)
  from steps_counterD[OF for_state_counter[OF ccp_odt_counter] loop] ctr_hex_Inr[OF c] c
  show "id st' = id st + length fs \<and> counted_from (id st) fs"
    by (simp add: fs counted_from_Cons counter_byte_frame)
qed

lemma ccp_start_stop_counter: "steps_counter id (ccp_start_stop bo sg)"
  unfolding steps_counter_def
  by (auto simp: ccp_start_stop_def bindE_Inr_iff Let_def counted_from_Cons counter_byte_frame
      ctr_hex_Inr_iff split: option.splits)

lemma create_daq_frames_ccp_Inr:
  assumes "create_daq_frames_ccp sg params = Inr fs"
  obtains can c1 sh c2 ctr1 wf ctr2 sf c3 where
    "ctr_hex (Suc 0) = Inr c1" "ctr_hex (Suc (Suc 0)) = Inr c2"
    "for_state (ccp_daq_list (BYTE_ORDER params) (BYTES_ONLY params) can sg) (Suc (Suc (Suc 0)))
              (sorted_ids DAQ_LIST_NUMBER sg) = Inr (ctr1, wf)"
    "for_state (ccp_start_stop (BYTE_ORDER params) sg) ctr1
              (sorted_ids DAQ_LIST_NUMBER sg) = Inr (ctr2, sf)"
    "ctr_hex ctr2 = Inr c3"
    "fs = \<lparr>frame_name = ''CONNECT'', DATA = CHR ''0'' # CHR ''1'' # c1 @ sh @ ''AAAAAAAA''\<rparr> #
          \<lparr>frame_name = ''EXCHANGE_ID'', DATA = CHR ''1'' # CHR ''7'' # c2 @ ''AAAAAAAAAAAA''\<rparr> #
          wf @ sf @
          [\<lparr>frame_name = ''START_STOP_ALL'', DATA = CHR ''0'' # CHR ''8'' # c3 @ ''01AAAAAAAAAA''\<rparr>]"
  using assms
  by (auto simp: create_daq_frames_ccp_def bindE_Inr_iff Let_def split: option.splits)

lemma create_daq_frames_ccp_counted:
  assumes "create_daq_frames_ccp sg params = Inr fs"
  shows "counted_from 1 fs"
proof -
  from assms obtain can c1 sh c2 ctr1 wf ctr2 sf c3 where
    c1: "ctr_hex (Suc 0) = Inr c1" and c2: "ctr_hex (Suc (Suc 0)) = Inr c2"
    and w: "for_state (ccp_daq_list (BYTE_ORDER params) (BYTES_ONLY params) can sg) (Suc (Suc (Suc 0)))
              (sorted_ids DAQ_LIST_NUMBER sg) = Inr (ctr1, wf)"
    and s: "for_state (ccp_start_stop (BYTE_ORDER params) sg) ctr1
              (sorted_ids DAQ_LIST_NUMBER sg) = Inr (ctr2, sf)"
    and c3: "ctr_hex ctr2 = Inr c3"
    and fs: "fs = \<lparr>frame_name = ''CONNECT'', DATA = CHR ''0'' # CHR ''1'' # c1 @ sh @ ''AAAAAAAA''\<rparr> #
          \<lparr>frame_name = ''EXCHANGE_ID'', DATA = CHR ''1'' # CHR ''7'' # c2 @ ''AAAAAAAAAAAA''\<rparr> #
          wf @ sf @
          [\<lparr>frame_name = ''START_STOP_ALL'', DATA = CHR ''0'' # CHR ''8'' # c3 @ ''01AAAAAAAAAA''\<rparr>]"
    by (rule create_daq_frames_ccp_Inr)
  from steps_counterD[OF for_state_counter[OF ccp_daq_list_counter] w]
  have w': "ctr1 = Suc (Suc (Suc (length wf)))" "counted_from (Suc (Suc (Suc 0))) wf"
    by simp_all
  from steps_counterD[OF for_state_counter[OF ccp_start_stop_counter] s]
  have s': "ctr2 = ctr1 + length sf" "counted_from ctr1 sf" by simp_all
  have c1': "length c1 = 2"
    using ctr_hex_Inr[OF c1] by simp
  have c2': "length c2 = 2"
    using ctr_hex_Inr[OF c2] by simp
  have c3': "ctr_hex (Suc (Suc (Suc (length wf + length sf)))) = Inr c3" "length c3 = 2"
    using c3 ctr_hex_Inr[OF c3] s' w' by simp_all
  show ?thesis
    using c1 c2 c1' c2' c3' w' s'
    by (simp add: fs counted_from_Cons counted_from_append counter_byte_frame)
qed


text \<open>
  Claim C7. When the CCP encoder returns its frames, the second payload byte of the
  \<open>i\<close>-th frame (counted from 0) is the two-digit hexadecimal text of \<open>i + 1\<close>, and
  \<open>i + 1\<close> is at most 255: the counter starts at 1 and every frame of every kind
  advances it by one.
\<close>

theorem ccp_counter_increments:
  assumes "create_daq_frames_ccp sg params = Inr fs" and "i < length fs"
  shows "counter_byte (fs ! i) = format_X 2 (i + 1)
       \<and> length (counter_byte (fs ! i)) = 2
       \<and> parse_digits 0 (counter_byte (fs ! i)) = Some (i + 1)
       \<and> i + 1 \<le> 255"
proof -
  from create_daq_frames_ccp_counted[OF assms(1)] assms(2)
  have "ctr_hex (1 + i) = Inr (counter_byte (fs ! i))"
    by (simp add: counted_from_def)
  from ctr_hex_Inr[OF this] show ?thesis
    by (simp add: parse_digits_format_X)
qed

lemma ccp_example:
  "create_daq_frames_ccp [assign sA 0 0 0, assign sB 0 0 1] (sample_params ''0x08'' ''0x08'' big (Some []))
   = Inr ccp_sample_frames"
  by (simp add: create_daq_frames_ccp_def sorted_ids_same ccp_daq_list_def ccp_odt_def ccp_entry_def
     ccp_start_stop_def event_channel_of_def ccp_sample_frames_def
     ctr_hex_eq to_bytes_hex_one to_bytes_hex_2 to_bytes_hex_4 sA_def sB_def address_extension_def start_stop_mode_def
     format_X_byte hex_digit_def del: One_nat_def)

theorem ccp_counter_increments_witness:
  "create_daq_frames_ccp [assign sA 0 0 0, assign sB 0 0 1] (sample_params ''0x08'' ''0x08'' big (Some []))
     = Inr ccp_sample_frames
   \<and> 7 < length ccp_sample_frames
   \<and> counter_byte (ccp_sample_frames ! 7) = format_X 2 (7 + 1)
   \<and> parse_digits 0 (counter_byte (ccp_sample_frames ! 7)) = Some (7 + 1)"
proof -
  have len: "7 < length ccp_sample_frames"
    by (simp add: ccp_sample_frames_def)
  from ccp_counter_increments[OF ccp_example len] ccp_example len
  show ?thesis by blast
qed

subsection \<open>Number of frames\<close>

lemma for_state_length:
  assumes "for_state body st xs = Inr (st', fs)"
    and "\<And>st x st' fs. body st x = Inr (st', fs) \<Longrightarrow> length fs = cnt x"
  shows "length fs = sum_list (map cnt xs)"
  using assms(1)
proof (induction xs arbitrary: st st' fs)
  case Nil
  then show ?case by simp
next
  case (Cons x xs)
  from Cons.prems obtain st1 fs1 st2 fs2 where
    b: "body st x = Inr (st1, fs1)" and r: "for_state body st1 xs = Inr (st2, fs2)"
    and e: "fs = fs1 @ fs2"
    by (auto simp: bindE_Inr_iff)
  from assms(2)[OF b] Cons.IH[OF r] e show ?case by simp
qed

lemma ccp_entry_length: "ccp_entry bo dn odn st x = Inr (st', fs) \<Longrightarrow> length fs = 2"
  by (auto simp: ccp_entry_def bindE_Inr_iff Let_def)

lemma ccp_chunk_length: "ccp_chunk bo dn odn s st k = Inr (st', fs) \<Longrightarrow> length fs = 2"
  by (auto simp: ccp_chunk_def bindE_Inr_iff Let_def split: prod.splits)

lemma sum_list_const_upt: "sum_list (map (\<lambda>_. c) [0 ..< n]) = n * (c::nat)"
  by (induction n) simp_all

lemma ccp_entry_bytes_length:
  assumes "ccp_entry_bytes bo dn odn st s = Inr (st', fs)"
  shows "length fs = 2 * Length s"
proof -
  from assms have "for_state (ccp_chunk bo dn odn s) st [0 ..< Length s] = Inr (st', fs)"
    by (simp add: ccp_entry_bytes_def)
  then have "length fs = sum_list (map (\<lambda>_. 2) [0 ..< Length s])"
    by (rule for_state_length) (rule ccp_chunk_length)
  then show ?thesis by (simp add: sum_list_const_upt)
qed

lemma ccp_odt_length:
  assumes "ccp_odt bo bytes_only dn daq_signals st od = Inr (st', fs)"
  shows "length fs = ccp_odt_frames bytes_only daq_signals od"
proof (cases bytes_only)
  case False
  with assms obtain odn where
    "for_state (ccp_entry bo dn odn) st (filter (\<lambda>s. ODT_NUMBER s = od) daq_signals) = Inr (st', fs)"
    by (auto simp: ccp_odt_def bindE_Inr_iff Let_def)
  then have "length fs = sum_list (map (\<lambda>_. 2) (filter (\<lambda>s. ODT_NUMBER s = od) daq_signals))"
    by (rule for_state_length) (rule ccp_entry_length)
  with False show ?thesis by (simp add: ccp_odt_frames_def ccp_signal_frames_def[abs_def])
next
  case True
  with assms obtain odn st2 where
    "for_state (ccp_entry_bytes bo dn odn) (st, 0) (filter (\<lambda>s. ODT_NUMBER s = od) daq_signals) = Inr (st2, fs)"
    by (auto simp: ccp_odt_def bindE_Inr_iff Let_def)
  then have "length fs = sum_list (map (\<lambda>s. 2 * Length s) (filter (\<lambda>s. ODT_NUMBER s = od) daq_signals))"
    by (rule for_state_length) (rule ccp_entry_bytes_length)
  with True show ?thesis by (simp add: ccp_odt_frames_def ccp_signal_frames_def[abs_def])
qed

lemma ccp_daq_list_length:
  assumes "ccp_daq_list bo bytes_only can sg st d = Inr (st', fs)"
  shows "length fs = ccp_daq_list_frames bytes_only sg d"
proof -
  define daq_signals where "daq_signals = filter (\<lambda>s. DAQ_LIST_NUMBER s = d) sg"
  from assms obtain dn f fs' where
    loop: "for_state (ccp_odt bo bytes_only dn daq_signals) (st + 1)
             (sorted_ids ODT_NUMBER daq_signals) = Inr (st', fs')"
    and fs: "fs = f # fs'"
    by (auto simp: ccp_daq_list_def bindE_Inr_iff Let_def daq_signals_def)
  from loop have "length fs' = sum_list (map (ccp_odt_frames bytes_only daq_signals) (sorted_ids ODT_NUMBER daq_signals))"
    by (rule for_state_length) (rule ccp_odt_length)
  then show ?thesis by (simp add: fs ccp_daq_list_frames_def daq_signals_def Let_def)
qed

lemma ccp_start_stop_length: "ccp_start_stop bo sg st d = Inr (st', fs) \<Longrightarrow> length fs = 1"
  by (auto simp: ccp_start_stop_def bindE_Inr_iff Let_def split: option.splits)

lemma create_daq_frames_ccp_length:
  assumes "create_daq_frames_ccp sg params = Inr fs"
  shows "length fs = ccp_frames_needed (BYTES_ONLY params) sg"
proof -
  from assms obtain can c1 sh c2 ctr1 wf ctr2 sf c3 where
    w: "for_state (ccp_daq_list (BYTE_ORDER params) (BYTES_ONLY params) can sg) (Suc (Suc (Suc 0)))
              (sorted_ids DAQ_LIST_NUMBER sg) = Inr (ctr1, wf)"
    and s: "for_state (ccp_start_stop (BYTE_ORDER params) sg) ctr1
              (sorted_ids DAQ_LIST_NUMBER sg) = Inr (ctr2, sf)"
    and fs: "fs = \<lparr>frame_name = ''CONNECT'', DATA = CHR ''0'' # CHR ''1'' # c1 @ sh @ ''AAAAAAAA''\<rparr> #
          \<lparr>frame_name = ''EXCHANGE_ID'', DATA = CHR ''1'' # CHR ''7'' # c2 @ ''AAAAAAAAAAAA''\<rparr> #
          wf @ sf @
          [\<lparr>frame_name = ''START_STOP_ALL'', DATA = CHR ''0'' # CHR ''8'' # c3 @ ''01AAAAAAAAAA''\<rparr>]"
    by (rule create_daq_frames_ccp_Inr)
  from w have lw: "length wf = sum_list (map (ccp_daq_list_frames (BYTES_ONLY params) sg) (sorted_ids DAQ_LIST_NUMBER sg))"
    by (rule for_state_length) (rule ccp_daq_list_length)
  from s have "length sf = sum_list (map (\<lambda>_. 1) (sorted_ids DAQ_LIST_NUMBER sg))"
    by (rule for_state_length) (rule ccp_start_stop_length)
  then have ls: "length sf = length (sorted_ids DAQ_LIST_NUMBER sg)"
    by (simp add: sum_list_triv)
  show ?thesis by (simp add: fs lw ls ccp_frames_needed_def Let_def)
qed

lemma create_daq_frames_ccp_at_most_255:
  assumes "create_daq_frames_ccp sg params = Inr fs"
  shows "length fs \<le> 255"
proof (rule ccontr)
  assume "\<not> length fs \<le> 255"
  then have "255 < length fs" by simp
  with create_daq_frames_ccp_counted[OF assms]
  have "ctr_hex (1 + 255) = Inr (counter_byte (fs ! 255))"
    unfolding counted_from_def by blast
  then show False by (simp add: ctr_hex_eq)
qed

text \<open>
  Claim C8, as amended. The claim says that the encoder succeeds and the counter wraps
  when more than 255 frames are needed. \<^verbatim>\<open>ctr_hex\<close> converts the counter with
  \<^verbatim>\<open>to_bytes(1, 'big')\<close>, which raises \<^verbatim>\<open>OverflowError\<close> for 256: an encoding that
  needs more than 255 frames returns no frame list.
\<close>

theorem ccp_counter_overflow:
  assumes "255 < ccp_frames_needed (BYTES_ONLY params) sg"
  shows "isl (create_daq_frames_ccp sg params)"
proof (cases "create_daq_frames_ccp sg params")
  case (Inl e)
  then show ?thesis by simp
next
  case (Inr fs)
  from create_daq_frames_ccp_length[OF Inr] create_daq_frames_ccp_at_most_255[OF Inr] assms
  show ?thesis by simp
qed

lemma bytes_only_params_sel [simp]:
  "MAX_CTO bytes_only_params = ''0x08''"
  "MAX_DTO bytes_only_params = ''0x08''"
  "BYTE_ORDER bytes_only_params = big"
  "BYTES_ONLY bytes_only_params = True"
  "DAQ_LISTS bytes_only_params = Some []"
  "CAN_ID_DTO bytes_only_params = ''0x7e8''"
  "CAN_ID_SLAVE_EXTENDED bytes_only_params = False"
  "ECU_STATION_ADDRESS bytes_only_params = ''0x0001''"
  by (simp_all add: bytes_only_params_def sample_params_def)

lemma wide_signal_sel [simp]:
  "int16 (ECU_ADDRESS (wide_signal k)) = Inr (1073745920 + 4 * k)"
  "Length (wide_signal k) = 4"
  "EventConfigured (wide_signal k) = ''3''"
  by (simp_all add: wide_signal_def)

lemma wide_daq: "sorted_ids DAQ_LIST_NUMBER wide_grouping = [hex_id 4 0]"
  by (simp add: sorted_ids_def wide_grouping_def upt_rec sorted_list_of_set_sort_remdups del: One_nat_def)

lemma wide_filter: "filter (\<lambda>s. DAQ_LIST_NUMBER s = hex_id 4 0) wide_grouping = wide_grouping"
  by (simp add: wide_grouping_def)

lemma wide_odts: "sorted_ids ODT_NUMBER wide_grouping = map (hex_id 2) [0 ..< 32]"
  by (simp add: sorted_ids_def wide_grouping_def upt_rec sorted_list_of_set_sort_remdups hex_id_def
      format_X_byte hex_digit_def del: One_nat_def)

lemma wide_odt_filter:
  "k < 32 \<Longrightarrow> filter (\<lambda>s. ODT_NUMBER s = hex_id 2 k) wide_grouping = [assign (wide_signal k) 0 k 0]"
proof -
  have "filter (\<lambda>s. ODT_NUMBER s = hex_id 2 k) (map (\<lambda>j. assign (wide_signal j) 0 j 0) [0 ..< n])
        = (if k < n then [assign (wide_signal k) 0 k 0] else [])" for n
    by (induction n) auto
  then show "k < 32 \<Longrightarrow> ?thesis" by (simp add: wide_grouping_def)
qed

lemma wide_needed: "ccp_frames_needed True wide_grouping = 261"
  by (simp add: ccp_frames_needed_def wide_daq ccp_daq_list_frames_def wide_filter wide_odts
      ccp_odt_frames_def wide_odt_filter ccp_signal_frames_def upt_rec del: One_nat_def)

lemma ccp_wide:
  "create_daq_frames_ccp wide_grouping bytes_only_params = Inl OverflowError"
  by (simp add: create_daq_frames_ccp_def wide_daq ccp_daq_list_def wide_filter wide_odts ccp_odt_def
     wide_odt_filter ccp_entry_bytes_def ccp_chunk_def upt_rec
     ctr_hex_eq to_bytes_hex_one to_bytes_hex_2 to_bytes_hex_4 del: One_nat_def)

theorem ccp_counter_overflow_witness:
  "255 < ccp_frames_needed (BYTES_ONLY bytes_only_params) wide_grouping
   \<and> isl (create_daq_frames_ccp wide_grouping bytes_only_params)"
proof -
  have h: "255 < ccp_frames_needed (BYTES_ONLY bytes_only_params) wide_grouping"
    by (simp add: wide_needed)
  from ccp_counter_overflow[OF h] h show ?thesis by blast
qed

theorem ccp_counter_wraps_counterexample:
  "ccp_frames_needed True wide_grouping = 261
   \<and> create_daq_frames_ccp wide_grouping bytes_only_params = Inl OverflowError"
  using wide_needed ccp_wide by blast

section \<open>The transmit schedule\<close>

lemma transmit_loop_props:
  "transmit_loop idf ffd brs cid sp d tot fs = (entries, d', tot') \<Longrightarrow>
     length entries = length fs
     \<and> tot' = tot + payload_bytes fs
     \<and> (\<forall>i < length fs. te_delay (entries ! i) = d + int i * sp
            \<and> te_id (entries ! i) = cid \<and> te_id_format (entries ! i) = idf
            \<and> te_data (entries ! i) = DATA (fs ! i) \<and> te_name (entries ! i) = frame_name (fs ! i))"
proof (induction fs arbitrary: d tot entries d' tot')
  case Nil
  then show ?case by (simp add: payload_bytes_def)
next
  case (Cons f fs)
  obtain es dr tr where rec: "transmit_loop idf ffd brs cid sp (d + sp) (tot + length (DATA f) div 2) fs = (es, dr, tr)"
    by (cases "transmit_loop idf ffd brs cid sp (d + sp) (tot + length (DATA f) div 2) fs") auto
  from Cons.prems obtain e where e: "entries = e # es" "tot' = tr"
    "te_delay e = d" "te_id e = cid" "te_id_format e = idf" "te_data e = DATA f" "te_name e = frame_name f"
    by (auto simp: Let_def rec)
  from Cons.IH[OF rec] e show ?case
    by (auto simp: All_less_Suc2 payload_bytes_def algebra_simps)
qed

lemma create_transmit_list_cases:
  obtains (too_many) "int (length daq_frames) > max_frames stg"
      "create_transmit_list daq_frames params stg path files
         = (Inl (FrameLimitExceeded (length daq_frames) (max_frames stg)), files)"
  | (too_long) "\<not> int (length daq_frames) > max_frames stg"
      "int (payload_bytes daq_frames) > max_data_bytes stg"
      "create_transmit_list daq_frames params stg path files
         = (Inl (DataBytesExceeded (payload_bytes daq_frames) (max_data_bytes stg)), files)"
  | (written) tl where "\<not> int (length daq_frames) > max_frames stg"
      "\<not> int (payload_bytes daq_frames) > max_data_bytes stg"
      "create_transmit_list daq_frames params stg path files = (Inr tl, files(path \<mapsto> tl))"
      "length tl = length daq_frames"
      "\<forall>i < length daq_frames. te_delay (tl ! i) = start_delay stg + int i * frame_spacing stg
            \<and> te_id (tl ! i) = upper (remove2 (CHR ''0'') (CHR ''x'') (CAN_ID_MASTER params))
            \<and> te_id_format (tl ! i) = (if CAN_ID_MASTER_EXTENDED params then 1 else 0)
            \<and> te_data (tl ! i) = DATA (daq_frames ! i) \<and> te_name (tl ! i) = frame_name (daq_frames ! i)"
proof -
  define fd where "fd = (CAN_FD_DATA_TRANSFER_BAUDRATE params \<noteq> None
                        \<and> CAN_FD_DATA_TRANSFER_BAUDRATE params \<noteq> Some (BAUDRATE params))"
  define cid where "cid = upper (remove2 (CHR ''0'') (CHR ''x'') (CAN_ID_MASTER params))"
  define idf :: nat where "idf = (if CAN_ID_MASTER_EXTENDED params then 1 else 0)"
  obtain tl d' tot' where loop:
    "transmit_loop idf (if fd then 1 else 0) (if fd then 1 else 0) cid (frame_spacing stg) (start_delay stg) 0 daq_frames
       = (tl, d', tot')"
    by (cases "transmit_loop idf (if fd then 1 else 0) (if fd then 1 else 0) cid (frame_spacing stg) (start_delay stg) 0 daq_frames") auto
  note P = transmit_loop_props[OF loop]
  have unf: "create_transmit_list daq_frames params stg path files =
      (if int (length tl) > max_frames stg
         then (Inl (FrameLimitExceeded (length tl) (max_frames stg)), files)
       else if int tot' > max_data_bytes stg
         then (Inl (DataBytesExceeded tot' (max_data_bytes stg)), files)
       else (Inr tl, files(path \<mapsto> tl)))"
    using loop by (simp add: create_transmit_list_def Let_def fd_def cid_def idf_def)
  from P have len: "length tl = length daq_frames" and tot: "tot' = payload_bytes daq_frames" by simp_all
  show ?thesis
  proof (cases "int (length daq_frames) > max_frames stg")
    case True
    then show ?thesis by (intro too_many) (simp_all add: unf len)
  next
    case nf: False
    show ?thesis
    proof (cases "int (payload_bytes daq_frames) > max_data_bytes stg")
      case True
      with nf show ?thesis by (intro too_long) (simp_all add: unf len tot)
    next
      case False
      with nf P show ?thesis
        by (intro written[of tl]) (simp_all add: unf len tot cid_def idf_def)
    qed
  qed
qed

text \<open>
  Claim C6, as amended. The delay of the \<open>i\<close>-th entry is
  \<open>start_delay + i * frame_spacing\<close>; the delays increase strictly when \<open>frame_spacing\<close>
  is positive (with a spacing of 0, which the function accepts, all delays are equal).
  Every entry carries the master CAN id and the id-format flag of the parameters. The call
  ends in \<^verbatim>\<open>sys.exit\<close> exactly when the number of frames exceeds \<open>max_frames\<close> or the
  cumulative payload byte count exceeds \<open>max_data_bytes\<close>; then the file system is
  unchanged, otherwise the list is written to the output path.
\<close>

theorem create_transmit_list_schedule:
  assumes "create_transmit_list daq_frames params stg path files = (res, files')"
  shows "(isl res \<longleftrightarrow> int (length daq_frames) > max_frames stg
                      \<or> int (payload_bytes daq_frames) > max_data_bytes stg)
       \<and> (isl res \<longrightarrow> files' = files)
       \<and> (\<forall>tl. res = Inr tl \<longrightarrow>
             files' = files(path \<mapsto> tl) \<and> length tl = length daq_frames
             \<and> (\<forall>i < length tl.
                    te_delay (tl ! i) = start_delay stg + int i * frame_spacing stg
                  \<and> te_id (tl ! i) = upper (remove2 (CHR ''0'') (CHR ''x'') (CAN_ID_MASTER params))
                  \<and> te_id_format (tl ! i) = (if CAN_ID_MASTER_EXTENDED params then 1 else 0))
             \<and> (0 < frame_spacing stg \<longrightarrow>
                    (\<forall>i j. i < j \<and> j < length tl \<longrightarrow> te_delay (tl ! i) < te_delay (tl ! j))))"
proof (cases rule: create_transmit_list_cases[where daq_frames = daq_frames and stg = stg and params = params and path = path and files = files])
  case too_many
  with assms show ?thesis by auto
next
  case too_long
  with assms show ?thesis by auto
next
  case (written tl)
  have mono: "te_delay (tl ! i) < te_delay (tl ! j)"
    if "0 < frame_spacing stg" "i < j" "j < length tl" for i j
  proof -
    from that written(4,5) have "te_delay (tl ! i) = start_delay stg + int i * frame_spacing stg"
      and "te_delay (tl ! j) = start_delay stg + int j * frame_spacing stg" by simp_all
    moreover from that have "int i * frame_spacing stg < int j * frame_spacing stg" by simp
    ultimately show ?thesis by simp
  qed
  from assms written have res: "res = Inr tl" "files' = files(path \<mapsto> tl)" by simp_all
  with written mono show ?thesis by auto
qed

lemma master_id: "upper ''7e0'' = ''7E0''"
  by code_simp

lemma sample_params_master [simp]:
  "CAN_ID_MASTER (sample_params cto dto order dls) = ''0x7e0''"
  "CAN_ID_MASTER_EXTENDED (sample_params cto dto order dls) = False"
  "CAN_FD_DATA_TRANSFER_BAUDRATE (sample_params cto dto order dls) = None"
  by (simp_all add: sample_params_def)

lemma transmit_two_default:
  "create_transmit_list two_frames (sample_params ''0x08'' ''0x08'' little None) default_settings
      ''transmit_list.json'' Map.empty
   = (Inr [sample_entry ''CONNECT'' 1000 ''FF00'', sample_entry ''GET_STATUS'' 1010 ''FD''],
      [''transmit_list.json'' \<mapsto> [sample_entry ''CONNECT'' 1000 ''FF00'', sample_entry ''GET_STATUS'' 1010 ''FD'']])"
  by (simp add: create_transmit_list_def two_frames_def default_settings_def master_id sample_entry_def Let_def)

lemma transmit_two_zero:
  "create_transmit_list two_frames (sample_params ''0x08'' ''0x08'' little None) zero_spacing
      ''transmit_list.json'' Map.empty
   = (Inr [sample_entry ''CONNECT'' 1000 ''FF00'', sample_entry ''GET_STATUS'' 1000 ''FD''],
      [''transmit_list.json'' \<mapsto> [sample_entry ''CONNECT'' 1000 ''FF00'', sample_entry ''GET_STATUS'' 1000 ''FD'']])"
  by (simp add: create_transmit_list_def two_frames_def zero_spacing_def master_id sample_entry_def Let_def)

lemma transmit_tight:
  "create_transmit_list ccp_sample_frames (sample_params ''0x08'' ''0x08'' big (Some [])) tight_settings
      ''transmit_list.json'' Map.empty
   = (Inl (DataBytesExceeded 72 64), Map.empty)"
  by (simp add: create_transmit_list_def ccp_sample_frames_def tight_settings_def master_id Let_def)

theorem create_transmit_list_schedule_witness:
  "create_transmit_list two_frames (sample_params ''0x08'' ''0x08'' little None) default_settings
      ''transmit_list.json'' Map.empty
   = (Inr [sample_entry ''CONNECT'' 1000 ''FF00'', sample_entry ''GET_STATUS'' 1010 ''FD''],
      [''transmit_list.json'' \<mapsto> [sample_entry ''CONNECT'' 1000 ''FF00'', sample_entry ''GET_STATUS'' 1010 ''FD'']])
   \<and> te_delay ([sample_entry ''CONNECT'' 1000 ''FF00'', sample_entry ''GET_STATUS'' 1010 ''FD''] ! 0)
       < te_delay ([sample_entry ''CONNECT'' 1000 ''FF00'', sample_entry ''GET_STATUS'' 1010 ''FD''] ! 1)
   \<and> create_transmit_list ccp_sample_frames (sample_params ''0x08'' ''0x08'' big (Some [])) tight_settings
      ''transmit_list.json'' Map.empty
     = (Inl (DataBytesExceeded 72 64), Map.empty)
   \<and> int (payload_bytes ccp_sample_frames) > max_data_bytes tight_settings"
proof -
  have sp: "0 < frame_spacing default_settings" by (simp add: default_settings_def)
  have ij: "(0::nat) < 1 \<and> 1 < length [sample_entry ''CONNECT'' 1000 ''FF00'', sample_entry ''GET_STATUS'' 1010 ''FD'']"
    by simp
  from create_transmit_list_schedule[OF transmit_two_default] sp ij
  have a: "te_delay ([sample_entry ''CONNECT'' 1000 ''FF00'', sample_entry ''GET_STATUS'' 1010 ''FD''] ! 0)
       < te_delay ([sample_entry ''CONNECT'' 1000 ''FF00'', sample_entry ''GET_STATUS'' 1010 ''FD''] ! 1)"
    by blast
  have "isl (Inl (DataBytesExceeded 72 64) :: error + transmit_entry list)" by simp
  with create_transmit_list_schedule[OF transmit_tight]
  have b: "int (length ccp_sample_frames) > max_frames tight_settings
             \<or> int (payload_bytes ccp_sample_frames) > max_data_bytes tight_settings"
    by blast
  have "\<not> int (length ccp_sample_frames) > max_frames tight_settings"
    by (simp add: ccp_sample_frames_def tight_settings_def)
  with b have c: "int (payload_bytes ccp_sample_frames) > max_data_bytes tight_settings" by blast
  from transmit_two_default a transmit_tight c show ?thesis by blast
qed

theorem create_transmit_list_spacing_counterexample:
  "create_transmit_list two_frames (sample_params ''0x08'' ''0x08'' little None) zero_spacing
      ''transmit_list.json'' Map.empty
   = (Inr [sample_entry ''CONNECT'' 1000 ''FF00'', sample_entry ''GET_STATUS'' 1000 ''FD''],
      [''transmit_list.json'' \<mapsto> [sample_entry ''CONNECT'' 1000 ''FF00'', sample_entry ''GET_STATUS'' 1000 ''FD'']])
   \<and> \<not> te_delay (sample_entry ''CONNECT'' 1000 ''FF00'') < te_delay (sample_entry ''GET_STATUS'' 1000 ''FD'')"
  using transmit_two_zero by (simp add: sample_entry_def)

section \<open>XCP: WRITE_DAQ_MULTIPLE\<close>

lemma chunks_Nil [simp]: "chunks n [] = []"
  by (simp add: chunks.simps)

lemma chunks_short: "0 < n \<Longrightarrow> xs \<noteq> [] \<Longrightarrow> length xs \<le> n \<Longrightarrow> chunks n xs = [xs]"
  by (subst chunks.simps) simp

lemma chunks_full: "0 < n \<Longrightarrow> length xs = n \<Longrightarrow> chunks n (xs @ ys) = xs # chunks n ys"
  by (subst chunks.simps) auto

lemma concat_chunks: "0 < n \<Longrightarrow> concat (chunks n xs) = xs"
proof (induction n xs rule: chunks.induct)
  case (1 n xs)
  then show ?case by (subst chunks.simps) auto
qed

lemma chunks_sizes: "c \<in> set (chunks n xs) \<Longrightarrow> 1 \<le> length c \<and> length c \<le> n \<and> set c \<subseteq> set xs"
proof (induction n xs rule: chunks.induct)
  case (1 n xs)
  show ?case
  proof (cases "n = 0 \<or> xs = []")
    case True
    with 1(2) show ?thesis by (simp add: chunks.simps)
  next
    case False
    with 1(2) have "c = take n xs \<or> c \<in> set (chunks n (drop n xs))"
      by (subst (asm) chunks.simps) simp
    then show ?thesis
    proof
      assume "c = take n xs"
      with False show ?thesis by (cases xs) (auto dest: in_set_takeD)
    next
      assume "c \<in> set (chunks n (drop n xs))"
      from 1(1)[OF False this] show ?thesis by (auto dest: in_set_dropD)
    qed
  qed
qed

lemma signal_entry_length:
  assumes "signal_entry bo s = Inr d" and "Length s < 256"
  shows "length d = 16" and "take 2 d = ''FF''"
proof -
  from assms(1) obtain a h where h: "to_bytes_hex 4 bo a = Inr h"
    and d: "d = bit_offset @ format_X 2 (Length s) @ h @ address_extension @ dummy_byte"
    by (auto simp: signal_entry_def bindE_Inr_iff Let_def)
  from h have "length h = 8"
    by (cases bo) (auto simp: to_bytes_hex_4 split: if_splits)
  with d assms(2) show "length d = 16" "take 2 d = ''FF''"
    by (simp_all add: bit_offset_def address_extension_def dummy_byte_def)
qed

lemma xcp_multi_loop:
  assumes "for_state (xcp_multi_entry bo 63) fd sigs = Inr (fd', fs)"
      and "\<forall>s \<in> set sigs. Length s < 256"
      and "\<forall>x \<in> set fd. length x = 16" and "length fd \<le> 7"
  shows "\<exists>ds. map (signal_entry bo) sigs = map Inr ds
           \<and> fs @ (if fd' \<noteq> [] then [write_daq_multi fd'] else []) = map write_daq_multi (chunks 7 (fd @ ds))"
  using assms
proof (induction sigs arbitrary: fd fs)
  case Nil
  then show ?case
    by (cases "fd = []") (auto simp: chunks_short)
next
  case (Cons s rest)
  from Cons.prems(1) obtain st1 fs1 fs2 where
    b: "xcp_multi_entry bo 63 fd s = Inr (st1, fs1)" and
    r: "for_state (xcp_multi_entry bo 63) st1 rest = Inr (fd', fs2)" and
    fs: "fs = fs1 @ fs2"
    by (auto simp: bindE_Inr_iff)
  from b obtain d where d: "signal_entry bo s = Inr d"
    and step: "(st1, fs1) = (if length (concat fd @ d) div 2 > 63 then ([d], [write_daq_multi fd]) else (fd @ [d], []))"
    by (auto simp: xcp_multi_entry_def bindE_Inr_iff split: if_splits)
  from Cons.prems(2) have ls: "Length s < 256" and lrest: "\<forall>s \<in> set rest. Length s < 256" by simp_all
  from signal_entry_length[OF d ls] have ld: "length d = 16" by simp
  from Cons.prems(3) have lc: "length (concat fd) = 16 * length fd"
    by (induction fd) simp_all
  have over: "length (concat fd @ d) div 2 > 63 \<longleftrightarrow> length fd = 7"
    using Cons.prems(4) by (simp add: lc ld) arith
  show ?case
  proof (cases "length fd = 7")
    case True
    with step over have st: "st1 = [d]" "fs1 = [write_daq_multi fd]" by simp_all
    from Cons.IH[OF r[unfolded st] lrest] ld obtain ds where
      ds: "map (signal_entry bo) rest = map Inr ds"
      and eq: "fs2 @ (if fd' \<noteq> [] then [write_daq_multi fd'] else []) = map write_daq_multi (chunks 7 ([d] @ ds))"
      by auto
    have "chunks 7 (fd @ d # ds) = fd # chunks 7 (d # ds)"
      using True by (simp add: chunks_full)
    with ds eq d show ?thesis
      by (intro exI[of _ "d # ds"]) (simp add: fs st)
  next
    case False
    with step over have st: "st1 = fd @ [d]" "fs1 = []" by simp_all
    from False Cons.prems(3,4) ld have inv: "\<forall>x \<in> set (fd @ [d]). length x = 16" "length (fd @ [d]) \<le> 7"
      by auto
    from Cons.IH[OF r[unfolded st] lrest inv] obtain ds where
      ds: "map (signal_entry bo) rest = map Inr ds"
      and eq: "fs2 @ (if fd' \<noteq> [] then [write_daq_multi fd'] else []) = map write_daq_multi (chunks 7 ((fd @ [d]) @ ds))"
      by auto
    with d show ?thesis
      by (intro exI[of _ "d # ds"]) (simp add: fs st)
  qed
qed

lemma xcp_write_multi_chunks:
  assumes "xcp_write_multi bo 63 sigs = Inr fs" and "\<forall>s \<in> set sigs. Length s < 256"
  shows "\<exists>ds. map (signal_entry bo) sigs = map Inr ds \<and> fs = map write_daq_multi (chunks 7 ds)"
proof -
  from assms(1) obtain fd' fs' where
    loop: "for_state (xcp_multi_entry bo 63) [] sigs = Inr (fd', fs')"
    and fs: "fs = (if fd' \<noteq> [] then fs' @ [write_daq_multi fd'] else fs')"
    by (auto simp: xcp_write_multi_def bindE_Inr_iff)
  from xcp_multi_loop[OF loop assms(2)] fs show ?thesis by auto
qed

lemma write_daq_multi_data:
  assumes "\<forall>d \<in> set c. length d = 16" and "length c \<le> 7"
  shows "DATA (write_daq_multi c) = ''C7'' @ format_X 2 (length c) @ concat c @ replicate (124 - 16 * length c) (CHR ''0'')"
    and "length (DATA (write_daq_multi c)) = 128"
proof -
  from assms(1) have lc: "length (concat c) = 16 * length c"
    by (induction c) simp_all
  from assms(2) have lf: "length (format_X 2 (length c)) = 2" by simp
  from lc lf assms(2)
  show "DATA (write_daq_multi c) = ''C7'' @ format_X 2 (length c) @ concat c @ replicate (124 - 16 * length c) (CHR ''0'')"
    by (simp add: write_daq_multi_def ljust0_def)
  then show "length (DATA (write_daq_multi c)) = 128"
    using lc lf assms(2) by simp
qed

lemma for_frames_Inr:
  "for_frames body xs = Inr fs \<Longrightarrow>
     \<exists>fss. fs = concat fss \<and> list_all2 (\<lambda>x f. body x = Inr f) xs fss"
proof (induction xs arbitrary: fs)
  case Nil
  then show ?case by simp
next
  case (Cons x xs)
  from Cons.prems obtain f1 f2 where b: "body x = Inr f1" and r: "for_frames body xs = Inr f2"
    and fs: "fs = f1 @ f2"
    by (auto simp: bindE_Inr_iff)
  from Cons.IH[OF r] obtain fss where "f2 = concat fss" "list_all2 (\<lambda>x f. body x = Inr f) xs fss"
    by blast
  with b fs show ?case by (intro exI[of _ "f1 # fss"]) simp
qed

lemma concat_map_concat_eq: "concat (map concat bss) = concat (concat bss)"
  by (induction bss) simp_all

lemma list_all2_concat:
  "list_all2 (list_all2 P) xss yss \<Longrightarrow> list_all2 P (concat xss) (concat yss)"
  by (induction rule: list_all2_induct) (auto intro: list_all2_appendI)

lemma map_Inr_descs:
  assumes "map f xs = map Inr ds" and "\<forall>x \<in> set xs. \<forall>d. f x = Inr d \<longrightarrow> Q d"
  shows "\<forall>d \<in> set ds. Q d"
  using assms
proof (induction xs arbitrary: ds)
  case Nil
  then show ?case by simp
next
  case (Cons x xs)
  then show ?case by (cases ds) auto
qed

lemma xcp_odt_multi_block:
  assumes "xcp_odt bo 64 63 d (filter (\<lambda>s. DAQ_LIST_NUMBER s = d) sg) od = Inr block"
      and "\<forall>s \<in> set sg. Length s < 256"
  shows "multi_block bo sg (d, od) block"
proof -
  from assms(1) have "\<exists>ptr fs.
      xcp_write_multi bo 63 (filter (\<lambda>x. DAQ_LIST_NUMBER x = d \<and> ODT_NUMBER x = od) sg) = Inr fs
      \<and> frame_name ptr = ''SET_DAQ_PTR'' \<and> block = ptr # fs"
    by (fastforce simp: xcp_odt_def bindE_Inr_iff Let_def)
  then obtain ptr fs where
    w: "xcp_write_multi bo 63 (filter (\<lambda>x. DAQ_LIST_NUMBER x = d \<and> ODT_NUMBER x = od) sg) = Inr fs"
    and ptr: "frame_name ptr = ''SET_DAQ_PTR''"
    and block: "block = ptr # fs"
    by blast
  from w have w: "xcp_write_multi bo 63 (odt_members d od sg) = Inr fs"
    by (simp add: odt_members_def)
  have len: "\<forall>s \<in> set (odt_members d od sg). Length s < 256"
    using assms(2) by (simp add: odt_members_def)
  from xcp_write_multi_chunks[OF w len] obtain ds where
    ds: "map (signal_entry bo) (odt_members d od sg) = map Inr ds"
    and fs: "fs = map write_daq_multi (chunks 7 ds)"
    by blast
  have dlen: "\<forall>x \<in> set ds. length x = 16 \<and> take 2 x = ''FF''"
    by (rule map_Inr_descs[OF ds]) (use len in \<open>auto dest: signal_entry_length\<close>)
  have frames: "\<forall>c \<in> set (chunks 7 ds). 1 \<le> length c \<and> length c \<le> 7
          \<and> DATA (write_daq_multi c) =
              ''C7'' @ format_X 2 (length c) @ concat c @ replicate (124 - 16 * length c) (CHR ''0'')
          \<and> length (DATA (write_daq_multi c)) = 128"
  proof
    fix c assume "c \<in> set (chunks 7 ds)"
    from chunks_sizes[OF this] have s: "1 \<le> length c" "length c \<le> 7" "set c \<subseteq> set ds" by simp_all
    with dlen have "\<forall>x \<in> set c. length x = 16" by auto
    from write_daq_multi_data[OF this s(2)] s
    show "1 \<le> length c \<and> length c \<le> 7
          \<and> DATA (write_daq_multi c) =
              ''C7'' @ format_X 2 (length c) @ concat c @ replicate (124 - 16 * length c) (CHR ''0'')
          \<and> length (DATA (write_daq_multi c)) = 128" by blast
  qed
  have cc: "concat (chunks 7 ds) = ds" by (simp add: concat_chunks)
  show ?thesis
    unfolding multi_block_def fst_conv snd_conv
    using ds dlen ptr block[unfolded fs] cc frames by blast
qed

lemma xcp_write_daq_list_blocks:
  assumes "xcp_write_daq_list bo 64 63 sg d = Inr w" and "\<forall>s \<in> set sg. Length s < 256"
  shows "\<exists>bs. w = concat bs \<and>
           list_all2 (multi_block bo sg)
             (map (Pair d) (sorted_ids ODT_NUMBER (filter (\<lambda>s. DAQ_LIST_NUMBER s = d) sg))) bs"
proof -
  from assms(1) have "for_frames (xcp_odt bo 64 63 d (filter (\<lambda>s. DAQ_LIST_NUMBER s = d) sg))
      (sorted_ids ODT_NUMBER (filter (\<lambda>s. DAQ_LIST_NUMBER s = d) sg)) = Inr w"
    by (simp add: xcp_write_daq_list_def Let_def)
  from for_frames_Inr[OF this] obtain bs where w: "w = concat bs"
    and all: "list_all2 (\<lambda>od b. xcp_odt bo 64 63 d (filter (\<lambda>s. DAQ_LIST_NUMBER s = d) sg) od = Inr b)
                (sorted_ids ODT_NUMBER (filter (\<lambda>s. DAQ_LIST_NUMBER s = d) sg)) bs"
    by blast
  from all have "list_all2 (\<lambda>od b. multi_block bo sg (d, od) b)
                (sorted_ids ODT_NUMBER (filter (\<lambda>s. DAQ_LIST_NUMBER s = d) sg)) bs"
    by (rule list_all2_mono) (rule xcp_odt_multi_block[OF _ assms(2)])
  then have "list_all2 (multi_block bo sg)
             (map (Pair d) (sorted_ids ODT_NUMBER (filter (\<lambda>s. DAQ_LIST_NUMBER s = d) sg))) bs"
    by (simp add: list_all2_map1)
  with w show ?thesis by blast
qed

lemma xcp_writes_blocks:
  assumes "for_frames (xcp_write_daq_list bo 64 63 sg) ds = Inr writes"
      and "\<forall>s \<in> set sg. Length s < 256"
  shows "\<exists>blocks. writes = concat blocks \<and>
           list_all2 (multi_block bo sg)
             (concat (map (\<lambda>d. map (Pair d) (sorted_ids ODT_NUMBER (filter (\<lambda>s. DAQ_LIST_NUMBER s = d) sg))) ds))
             blocks"
proof -
  from for_frames_Inr[OF assms(1)] obtain wss where w: "writes = concat wss"
    and all: "list_all2 (\<lambda>d w. xcp_write_daq_list bo 64 63 sg d = Inr w) ds wss"
    by blast
  from all have "\<exists>bss. wss = map concat bss \<and>
      list_all2 (list_all2 (multi_block bo sg))
        (map (\<lambda>d. map (Pair d) (sorted_ids ODT_NUMBER (filter (\<lambda>s. DAQ_LIST_NUMBER s = d) sg))) ds) bss"
  proof (induction rule: list_all2_induct)
    case Nil
    then show ?case by simp
  next
    case (Cons d ds w wss)
    from xcp_write_daq_list_blocks[OF Cons.hyps(1) assms(2)] obtain bs where
      "w = concat bs" "list_all2 (multi_block bo sg)
             (map (Pair d) (sorted_ids ODT_NUMBER (filter (\<lambda>s. DAQ_LIST_NUMBER s = d) sg))) bs"
      by blast
    moreover from Cons.IH obtain bss where "wss = map concat bss"
      "list_all2 (list_all2 (multi_block bo sg))
        (map (\<lambda>d. map (Pair d) (sorted_ids ODT_NUMBER (filter (\<lambda>s. DAQ_LIST_NUMBER s = d) sg))) ds) bss"
      by blast
    ultimately show ?case by (intro exI[of _ "bs # bss"]) simp
  qed
  then obtain bss where wss: "wss = map concat bss"
    and all2: "list_all2 (list_all2 (multi_block bo sg))
        (map (\<lambda>d. map (Pair d) (sorted_ids ODT_NUMBER (filter (\<lambda>s. DAQ_LIST_NUMBER s = d) sg))) ds) bss"
    by blast
  have "writes = concat (concat bss)"
    by (simp add: w wss concat_map_concat_eq)
  with list_all2_concat[OF all2] show ?thesis by blast
qed

text \<open>
  Claim C5. In an XCP encoding with \<^verbatim>\<open>max_cto\<close> 64 (that is, \<^verbatim>\<open>MAX_CTO\<close> at least 64) of
  signals whose length fills the descriptor's one length byte, the frames written for the
  ODTs, in (DAQ list, ODT) order, are for each ODT its \<^verbatim>\<open>SET_DAQ_PTR\<close> frame followed by
  the \<^verbatim>\<open>WRITE_DAQ_MULTIPLE\<close> frames of its entries: the 8-byte descriptors in pieces of
  seven (seven fit into 63 bytes, an eighth would not), each frame \<^verbatim>\<open>C7\<close>, its number of
  descriptors, the descriptors, and zeros up to 64 bytes.
\<close>

theorem xcp_write_daq_multiple:
  assumes "create_daq_frames_xcp sg params = Inr fs"
      and "int16 (MAX_CTO params) = Inr cto" and "64 \<le> cto"
      and "\<forall>s \<in> set sg. Length s < 256"
  shows "\<exists>head blocks tail. fs = head @ concat blocks @ tail
           \<and> list_all2 (multi_block (BYTE_ORDER params) sg) (odt_keys sg) blocks"
proof -
  have m: "min cto 64 = 64" using assms(3) by simp
  from assms(1,2) obtain f1 f2 f3 f4 ao aoe writes modes starts where
    w: "for_frames (xcp_write_daq_list (BYTE_ORDER params) 64 63 sg) (sorted_ids DAQ_LIST_NUMBER sg) = Inr writes"
    and fs: "fs = f1 # f2 # f3 # f4 # ao @ aoe @ writes @ modes @ starts
                    @ [\<lparr>frame_name = ''START_STOP_SYNCH'', DATA = ''DD01''\<rparr>]"
    by (auto simp: create_daq_frames_xcp_def bindE_Inr_iff Let_def m)
  from xcp_writes_blocks[OF w assms(4)] obtain blocks where
    b: "writes = concat blocks" "list_all2 (multi_block (BYTE_ORDER params) sg) (odt_keys sg) blocks"
    by (auto simp: odt_keys_def)
  have "fs = (f1 # f2 # f3 # f4 # ao @ aoe) @ concat blocks
              @ (modes @ starts @ [\<lparr>frame_name = ''START_STOP_SYNCH'', DATA = ''DD01''\<rparr>])"
    by (simp add: fs b)
  with b(2) show ?thesis by blast
qed

lemma int16_0040 [simp]: "int16 ''0x0040'' = Inr 64"
  by (simp add: int16_def py_int16_def hex_val_def)

lemma flag_signal_sel [simp]:
  "int16 (ECU_ADDRESS (flag_signal k)) = Inr (1073750016 + k)"
  "Length (flag_signal k) = 1"
  "EventConfigured (flag_signal k) = ''3''"
  by (simp_all add: flag_signal_def)

lemma fd_daq: "sorted_ids DAQ_LIST_NUMBER fd_grouping = [hex_id 4 0]"
  by (simp add: sorted_ids_def fd_grouping_def upt_rec sorted_list_of_set_sort_remdups del: One_nat_def)

lemma fd_odts: "sorted_ids ODT_NUMBER fd_grouping = [hex_id 2 0]"
  by (simp add: sorted_ids_def fd_grouping_def upt_rec sorted_list_of_set_sort_remdups del: One_nat_def)

lemma fd_filter:
  "filter (\<lambda>s. DAQ_LIST_NUMBER s = hex_id 4 0) fd_grouping = fd_grouping"
  "filter (\<lambda>s. ODT_NUMBER s = hex_id 2 0) fd_grouping = fd_grouping"
  "filter (\<lambda>s. DAQ_LIST_NUMBER s = hex_id 4 0 \<and> ODT_NUMBER s = hex_id 2 0) fd_grouping = fd_grouping"
  by (simp_all add: fd_grouping_def)

lemma sample_events [simp]:
  "EVENTS (sample_params cto dto order dls) = [\<lparr>EventChannelNumber = 3, EventPriority = ''0x02''\<rparr>]"
  by (simp add: sample_params_def)

lemma priority_text: "upper ''0x02'' = ''0X02''"
  by code_simp

lemma fd_first: "find (\<lambda>s. DAQ_LIST_NUMBER s = hex_id 4 0) fd_grouping = Some (assign (flag_signal 0) 0 0 0)"
  by (simp add: fd_grouping_def upt_rec del: One_nat_def)

lemma fd_example:
  "create_daq_frames_xcp fd_grouping fd_params = Inr xcp_fd_frames"
  apply (simp add: create_daq_frames_xcp_def fd_params_def fd_daq fd_odts fd_filter
     xcp_alloc_odt_def xcp_alloc_odt_entries_def xcp_alloc_odt_entry_def xcp_write_daq_list_def xcp_odt_def
     xcp_write_multi_def xcp_set_daq_list_mode_def xcp_start_stop_daq_def event_channel_of_def fd_first
     priority_text prescaler_def start_stop_mode_def
     to_bytes_hex_one to_bytes_hex_2 format_X_byte hex_digit_def del: One_nat_def)
  apply (simp add: fd_grouping_def upt_rec xcp_multi_entry_def signal_entry_def write_daq_multi_def ljust0_def
     bit_offset_def address_extension_def dummy_byte_def xcp_fd_frames_def hex_id_simps
     to_bytes_hex_4 format_X_byte hex_digit_def del: One_nat_def)
  apply (simp add: eval_nat_numeral)
  done

lemma fd_keys: "odt_keys fd_grouping = [(hex_id 4 0, hex_id 2 0)]"
  by (simp add: odt_keys_def fd_daq fd_filter fd_odts)

theorem xcp_write_daq_multiple_witness:
  "create_daq_frames_xcp fd_grouping fd_params = Inr xcp_fd_frames
   \<and> int16 (MAX_CTO fd_params) = Inr 64
   \<and> (\<exists>head blocks tail. xcp_fd_frames = head @ concat blocks @ tail \<and> length blocks = 1)"
proof -
  have cto: "int16 (MAX_CTO fd_params) = Inr 64" by (simp add: fd_params_def)
  have len: "\<forall>s \<in> set fd_grouping. Length s < 256"
    by (simp add: fd_grouping_def)
  from xcp_write_daq_multiple[OF fd_example cto _ len] obtain head blocks tail where
    "xcp_fd_frames = head @ concat blocks @ tail"
    "list_all2 (multi_block (BYTE_ORDER fd_params) fd_grouping) (odt_keys fd_grouping) blocks"
    by auto
  moreover from this(2) have "length blocks = 1"
    by (auto dest: list_all2_lengthD simp: fd_keys)
  ultimately show ?thesis using fd_example cto by blast
qed

section \<open>Multiplexor values of the decode layout\<close>




























lemma sample_sel3 [simp]:
  "Scale (sample_signal nm ev ad len) = ''1''"
  "Offset (sample_signal nm ev ad len) = ''0''"
  "LowerLimit (sample_signal nm ev ad len) = ''0''"
  "UpperLimit (sample_signal nm ev ad len) = ''255''"
  "Unit (sample_signal nm ev ad len) = []"
  by (simp_all add: sample_signal_def)

lemma hex_id_simps2:
  "hex_id 4 (Suc 0) = ''0x0001''" "hex_id 2 (Suc 0) = ''0x01''" "hex_id 4 1 = ''0x0001''"
  by (simp_all add: hex_id_def format_X_def to_hex.simps hex_digit_def replicate_3)





section \<open>The end-to-end example\<close>

lemma example_daq: "sorted_ids DAQ_LIST_NUMBER example_grouping = [hex_id 4 0]"
  by (simp add: sorted_ids_same example_grouping_def)

lemma example_odts: "sorted_ids ODT_NUMBER example_grouping = [hex_id 2 0]"
  by (simp add: sorted_ids_same example_grouping_def)

lemma example_filter:
  "filter (\<lambda>s. DAQ_LIST_NUMBER s = hex_id 4 0) example_grouping = example_grouping"
  "filter (\<lambda>s. ODT_NUMBER s = hex_id 2 0) example_grouping = example_grouping"
  "filter (\<lambda>s. DAQ_LIST_NUMBER s = hex_id 4 0 \<and> ODT_NUMBER s = hex_id 2 0) example_grouping = example_grouping"
  by (simp_all add: example_grouping_def)

lemma example_first:
  "find (\<lambda>s. DAQ_LIST_NUMBER s = hex_id 4 0) example_grouping = Some (assign sA 0 0 0)"
  by (simp add: example_grouping_def)

lemma example_group:
  "group_signals [sA, sB] (sample_params ''0x08'' ''0x08'' order None) xcp = Inr example_grouping"
  by (simp add: group_signals_def bucket_signals_def sA_def sB_def example_grouping_def)

lemma example_ids:
  "map (\<lambda>g. (Name g, DAQ_LIST_NUMBER g, ODT_NUMBER g, ODT_ENTRY_NUMBER g)) example_grouping
     = [(''EngineSpeed'', ''0x0000'', ''0x00'', ''0x00''), (''VehicleSpeed'', ''0x0000'', ''0x00'', ''0x01'')]"
  by (simp add: example_grouping_def sA_def sB_def hex_id_simps del: One_nat_def)

lemma example_xcp_little:
  "create_daq_frames_xcp example_grouping (sample_params ''0x08'' ''0x08'' little None)
     = Inr example_frames_little"
  apply (simp add: create_daq_frames_xcp_def example_daq example_odts example_filter example_first
     xcp_alloc_odt_def xcp_alloc_odt_entries_def xcp_alloc_odt_entry_def xcp_write_daq_list_def xcp_odt_def
     xcp_set_daq_list_mode_def xcp_start_stop_daq_def event_channel_of_def
     priority_text prescaler_def start_stop_mode_def
     to_bytes_hex_one to_bytes_hex_2 format_X_byte hex_digit_def del: One_nat_def)
  apply (simp add: example_grouping_def xcp_write_daq_def sA_def sB_def example_frames_little_def
     bit_offset_def address_extension_def dummy_byte_def hex_id_simps priority_text
     to_bytes_hex_4 format_X_byte hex_digit_def del: One_nat_def)
  done

lemma example_xcp_big:
  "create_daq_frames_xcp example_grouping (sample_params ''0x08'' ''0x08'' big None)
     = Inr example_frames_big"
  apply (simp add: create_daq_frames_xcp_def example_daq example_odts example_filter example_first
     xcp_alloc_odt_def xcp_alloc_odt_entries_def xcp_alloc_odt_entry_def xcp_write_daq_list_def xcp_odt_def
     xcp_set_daq_list_mode_def xcp_start_stop_daq_def event_channel_of_def
     priority_text prescaler_def start_stop_mode_def
     to_bytes_hex_one to_bytes_hex_2 format_X_byte hex_digit_def del: One_nat_def)
  apply (simp add: example_grouping_def xcp_write_daq_def sA_def sB_def example_frames_big_def
     bit_offset_def address_extension_def dummy_byte_def hex_id_simps priority_text
     to_bytes_hex_4 format_X_byte hex_digit_def del: One_nat_def)
  done

lemma example_dbc_little:
  "create_dbc example_grouping (sample_params ''0x08'' ''0x08'' little None) xcp
     = Inr [sample_row CHR ''1'' ''EngineSpeed'' 0 8 16, sample_row CHR ''1'' ''VehicleSpeed'' 0 24 16]"
  apply (simp add: create_dbc_def dbc_blocks_def example_daq example_odts example_filter first_pid_def)
  apply (simp add: example_grouping_def sA_def sB_def sample_row_def sample_params_def Let_def)
  done

lemma example_dbc_big:
  "create_dbc example_grouping (sample_params ''0x08'' ''0x08'' big None) xcp
     = Inr [sample_row CHR ''0'' ''EngineSpeed'' 0 15 16, sample_row CHR ''0'' ''VehicleSpeed'' 0 31 16]"
  apply (simp add: create_dbc_def dbc_blocks_def example_daq example_odts example_filter first_pid_def)
  apply (simp add: example_grouping_def sA_def sB_def sample_row_def sample_params_def Let_def)
  done

text \<open>
  Claim C3. The example: event channel 3, the two unsigned signals \<open>sA\<close> and \<open>sB\<close> of two
  bytes, \<^verbatim>\<open>MAX_DTO\<close> and \<^verbatim>\<open>MAX_CTO\<close> \<^verbatim>\<open>0x08\<close>, for both byte orders. The grouping puts both signals
  into DAQ list \<^verbatim>\<open>0x0000\<close>, ODT \<^verbatim>\<open>0x00\<close>, as entries \<^verbatim>\<open>0x00\<close> and \<^verbatim>\<open>0x01\<close>; the encoder emits
  the twelve frames listed, among them one \<^verbatim>\<open>SET_DAQ_PTR\<close> followed by the two \<^verbatim>\<open>WRITE_DAQ\<close>
  frames and no \<^verbatim>\<open>WRITE_DAQ_MULTI\<close>; the decode layout has two rows with multiplexor value
  0 and 16 bits each, at start bits 8 and 24 (little endian) or 15 and 31 (big endian).
\<close>

theorem xcp_end_to_end_example:
  "group_signals [sA, sB] (sample_params ''0x08'' ''0x08'' little None) xcp = Inr example_grouping
   \<and> group_signals [sA, sB] (sample_params ''0x08'' ''0x08'' big None) xcp = Inr example_grouping
   \<and> map (\<lambda>s. (EventConfigured s, Length s, Signage s)) [sA, sB]
       = [(''3'', 2, ''unsigned''), (''3'', 2, ''unsigned'')]
   \<and> map (\<lambda>g. (Name g, DAQ_LIST_NUMBER g, ODT_NUMBER g, ODT_ENTRY_NUMBER g)) example_grouping
       = [(''EngineSpeed'', ''0x0000'', ''0x00'', ''0x00''), (''VehicleSpeed'', ''0x0000'', ''0x00'', ''0x01'')]
   \<and> create_daq_frames_xcp example_grouping (sample_params ''0x08'' ''0x08'' little None)
       = Inr example_frames_little
   \<and> create_daq_frames_xcp example_grouping (sample_params ''0x08'' ''0x08'' big None)
       = Inr example_frames_big
   \<and> map frame_name example_frames_little
       = [''CONNECT'', ''GET_STATUS'', ''FREE_DAQ'', ''AL_DAQ'', ''AL_ODT_0x0000'', ''AL_ODT_ENT_0x00'',
          ''SET_DAQ_PTR'', ''WRITE_DAQ_0x00'', ''WRITE_DAQ_0x01'',
          ''SET_DAQ_LIST_MOD'', ''START_STOP_DAQ'', ''START_STOP_SYNCH'']
   \<and> map frame_name example_frames_big = map frame_name example_frames_little
   \<and> create_dbc example_grouping (sample_params ''0x08'' ''0x08'' little None) xcp
       = Inr [sample_row CHR ''1'' ''EngineSpeed'' 0 8 16, sample_row CHR ''1'' ''VehicleSpeed'' 0 24 16]
   \<and> create_dbc example_grouping (sample_params ''0x08'' ''0x08'' big None) xcp
       = Inr [sample_row CHR ''0'' ''EngineSpeed'' 0 15 16, sample_row CHR ''0'' ''VehicleSpeed'' 0 31 16]
   \<and> map (\<lambda>r. (multiplexor_value r, start_bit r, bit_length r))
         [sample_row CHR ''1'' ''EngineSpeed'' 0 8 16, sample_row CHR ''1'' ''VehicleSpeed'' 0 24 16]
       = [(0, 8, 16), (0, 24, 16)]
   \<and> map (\<lambda>r. (multiplexor_value r, start_bit r, bit_length r))
         [sample_row CHR ''0'' ''EngineSpeed'' 0 15 16, sample_row CHR ''0'' ''VehicleSpeed'' 0 31 16]
       = [(0, 15, 16), (0, 31, 16)]"
proof -
  have s: "map (\<lambda>s. (EventConfigured s, Length s, Signage s)) [sA, sB]
       = [(''3'', 2, ''unsigned''), (''3'', 2, ''unsigned'')]"
    by (simp add: sA_def sB_def)
  have n: "map frame_name example_frames_little
       = [''CONNECT'', ''GET_STATUS'', ''FREE_DAQ'', ''AL_DAQ'', ''AL_ODT_0x0000'', ''AL_ODT_ENT_0x00'',
          ''SET_DAQ_PTR'', ''WRITE_DAQ_0x00'', ''WRITE_DAQ_0x01'',
          ''SET_DAQ_LIST_MOD'', ''START_STOP_DAQ'', ''START_STOP_SYNCH'']"
    by (simp add: example_frames_little_def)
  have b: "map frame_name example_frames_big = map frame_name example_frames_little"
    by (simp add: example_frames_big_def example_frames_little_def)
  have r1: "map (\<lambda>r. (multiplexor_value r, start_bit r, bit_length r))
         [sample_row CHR ''1'' ''EngineSpeed'' 0 8 16, sample_row CHR ''1'' ''VehicleSpeed'' 0 24 16]
       = [(0, 8, 16), (0, 24, 16)]"
    by (simp add: sample_row_def)
  have r2: "map (\<lambda>r. (multiplexor_value r, start_bit r, bit_length r))
         [sample_row CHR ''0'' ''EngineSpeed'' 0 15 16, sample_row CHR ''0'' ''VehicleSpeed'' 0 31 16]
       = [(0, 15, 16), (0, 31, 16)]"
    by (simp add: sample_row_def)
  from example_group[of little] example_group[of big] s example_ids example_xcp_little example_xcp_big
       n b example_dbc_little example_dbc_big r1 r2
  show ?thesis by (intro conjI)
qed

section \<open>The capacity check of the grouping\<close>

lemma int16_02: "int16 ''0x02'' = Inr 2" "int16 ''0x00'' = Inr 0" "int16 ''0x0000'' = Inr 0"
  by (simp_all add: int16_def py_int16_def hex_val_def)

lemma hex_id_2: "hex_id 2 2 = ''0x02''"
  by (simp add: hex_id_def format_X_def to_hex.simps hex_digit_def)

lemma three_odts:
  "assign_daqs 7 0 (bucket_signals [sD, sE, sF]) = [assign sD 0 0 0, assign sE 0 1 0, assign sF 0 2 0]"
  by (simp add: bucket_signals_def sD_def sE_def sF_def del: One_nat_def)

lemma three_count:
  "count_odts [assign sD 0 0 0, assign sE 0 1 0, assign sF 0 2 0]
     = [(''0x0000'', {''0x00'', ''0x01'', ''0x02''})]"
  by (simp add: count_odts_def hex_id_simps hex_id_simps2 hex_id_2 insert_commute del: One_nat_def)

text \<open>
  Claim C4. Three signals of four bytes on one event channel need three ODTs with
  \<^verbatim>\<open>MAX_DTO\<close> 8. The parameters declare a capacity of two ODTs for DAQ list 0. When the
  \<^verbatim>\<open>Id\<close> of the declaration is written \<^verbatim>\<open>0x00\<close>, the capacity check of \<^verbatim>\<open>group_signals\<close>
  compares it as text with the generated \<^verbatim>\<open>0x0000\<close>, finds no declaration and returns the
  grouping; the lookup of \<^verbatim>\<open>create_dbc\<close> (line 1031), which compares the integer values,
  finds this declaration. When the \<^verbatim>\<open>Id\<close> is written \<^verbatim>\<open>0x0000\<close> the check ends the run,
  reporting the DAQ list, 3 used ODTs and the capacity 2.
\<close>

theorem group_signals_capacity_id_text:
  "group_signals [sD, sE, sF] (capacity_params ''0x00'') ccp
     = Inr [assign sD 0 0 0, assign sE 0 1 0, assign sF 0 2 0]
   \<and> count_odts [assign sD 0 0 0, assign sE 0 1 0, assign sF 0 2 0]
       = [(''0x0000'', {''0x00'', ''0x01'', ''0x02''})]
   \<and> card {''0x00'', ''0x01'', ''0x02''} = 3
   \<and> find_daq_list_entry [\<lparr>dl_Id = ''0x00'', dl_Length = ''0x02'', dl_FirstPID = ''0x00''\<rparr>] ''0x0000''
       = Inr (Some \<lparr>dl_Id = ''0x00'', dl_Length = ''0x02'', dl_FirstPID = ''0x00''\<rparr>)
   \<and> int16 ''0x02'' = Inr 2
   \<and> group_signals [sD, sE, sF] (capacity_params ''0x0000'') ccp
       = Inl (OdtCapacityExceeded ''0x0000'' 3 2)"
proof -
  have a: "group_signals [sD, sE, sF] (capacity_params ''0x00'') ccp
     = Inr [assign sD 0 0 0, assign sE 0 1 0, assign sF 0 2 0]"
    by (simp add: group_signals_def capacity_params_def three_odts three_count Let_def
        del: One_nat_def)
  have c: "card {''0x00'', ''0x01'', ''0x02''} = 3"
    by simp
  have f: "find_daq_list_entry [\<lparr>dl_Id = ''0x00'', dl_Length = ''0x02'', dl_FirstPID = ''0x00''\<rparr>] ''0x0000''
       = Inr (Some \<lparr>dl_Id = ''0x00'', dl_Length = ''0x02'', dl_FirstPID = ''0x00''\<rparr>)"
    by (simp add: int16_02)
  have e: "group_signals [sD, sE, sF] (capacity_params ''0x0000'') ccp
       = Inl (OdtCapacityExceeded ''0x0000'' 3 2)"
    by (simp add: group_signals_def capacity_params_def three_odts three_count int16_02 Let_def
        del: One_nat_def)
  from a three_count c f int16_02(1) e show ?thesis by (intro conjI)
qed

end
